theory Spec2Isabelle
  imports
    Main
    "HOL-Library.Char_ord"
    "HOL-Library.List_Lexorder"
    "HOL-Library.Multiset"
    "HOL-Library.Sublist"
    "HOL-Library.Word"
begin

unbundle bit_operations_syntax

section \<open>A shallow embedding of the TCP micro server\<close>

text \<open>
  The development follows the two Go sources of the package \<^verbatim>\<open>tcp\<close>: the server
  (\<^verbatim>\<open>tcp.go\<close>: options, handler and subscriber registry, Register, Deregister, the
  heartbeat of Start and the accept loop \<^verbatim>\<open>serve\<close>) and the subscriber file
  (\<^verbatim>\<open>newSubscriber\<close>, \<^verbatim>\<open>validateSubscriber\<close>, \<^verbatim>\<open>createSubHandler\<close>).

  Conventions.
  \<^item> A Go \<^verbatim>\<open>error\<close> is observed through its \<^verbatim>\<open>Error()\<close> text only, so an error value is
    a \<open>string\<close>; a function returning \<^verbatim>\<open>error\<close> returns a \<open>result\<close>, which also has a
    branch for a run-time panic.
  \<^item> The mutex, the logger and the exit channel of \<^verbatim>\<open>tcpServer\<close> are left out: every
    operation is modelled as one atomic step, and log lines are not effects of the model.
  \<^item> Collaborators outside the package (service directory, message bus, codec, the
    handler functions of the user) are parameters: records of functions, or fields of the
    options, and each call to one of them is written to a list of effects.
  \<^item> Go ranges over a map in an unspecified order. The order in which one \<^verbatim>\<open>range\<close>
    visits the keys of \<^verbatim>\<open>h.subscribers\<close> is a parameter of the operation (a list of keys);
    theorems quantify over every such order.
  \<^item> Goroutines: the handlers started by one dispatch report to a channel; the order in
    which their results arrive is a parameter (a list of handler indices).
\<close>

subsection \<open>Errors and results\<close>

type_synonym error = string

datatype result = Success | Failure error | Panicked

text \<open>\<^verbatim>\<open>strings.Join\<close>.\<close>

fun Join :: "string list \<Rightarrow> string \<Rightarrow> string" where
  "Join [] sep = []"
| "Join [x] sep = x"
| "Join (x # y # ys) sep = x @ sep @ Join (y # ys) sep"

text \<open>Decimal rendering of a count, as \<^verbatim>\<open>%v\<close> prints an \<^verbatim>\<open>int\<close> that is not negative.\<close>

definition digit :: "nat \<Rightarrow> char" where
  "digit d = ''0123456789'' ! d"

function itoa :: "nat \<Rightarrow> string" where
  "itoa n = (if n < 10 then [digit n] else itoa (n div 10) @ [digit (n mod 10)])"
  by pat_completeness auto
termination
  by (relation "measure (\<lambda>n. n)") auto

subsection \<open>Reflection: what the package reads of a \<^verbatim>\<open>reflect.Type\<close>\<close>

text \<open>
  A type descriptor carries its kind (with the parameter and result types of a function type
  and the element type of a pointer type), its \<^verbatim>\<open>Name()\<close>, \<^verbatim>\<open>PkgPath()\<close>, \<^verbatim>\<open>String()\<close> and
  its method set. A method of the set is its name with the parameter types (the receiver
  first) and result types of \<^verbatim>\<open>method.Type\<close>. Identity of descriptors (\<^verbatim>\<open>!=\<close> on
  \<^verbatim>\<open>reflect.Type\<close>) is equality of these values.
\<close>

datatype rtype =
  RType (Kind: kind) (Type_Name: string) (PkgPath: string) (Type_String: string) (Methods: "rmethod list")
and kind =
  Func (Func_In: "rtype list") (Func_Out: "rtype list")
| Ptr (Ptr_Elem: rtype)
| Other
and rmethod =
  Method (Method_Name: string) (Method_In: "rtype list") (Method_Out: "rtype list")

definition NumIn :: "rtype \<Rightarrow> nat" where
  "NumIn t = length (Func_In (Kind t))"

definition NumOut :: "rtype \<Rightarrow> nat" where
  "NumOut t = length (Func_Out (Kind t))"

definition NumMethod :: "rtype \<Rightarrow> nat" where
  "NumMethod t = length (Methods t)"

text \<open>\<^verbatim>\<open>var typeOfError = reflect.TypeOf((*error)(nil)).Elem()\<close>: the interface type \<^verbatim>\<open>error\<close>.\<close>

definition typeOfString :: rtype where
  "typeOfString = RType Other ''string'' [] ''string'' []"

definition typeOfError :: rtype where
  "typeOfError = RType Other ''error'' [] ''error'' [Method ''Error'' [] [typeOfString]]"

definition subSig :: string where
  "subSig = ''func(context.Context, interface{}) error''"

text \<open>
  \<^verbatim>\<open>utf8.DecodeRuneInString\<close>: the first rune of a string of bytes and the number of bytes
  it takes. The library looks the first byte up in a table that gives the length of the
  sequence and the range of the second byte; the cases below are the rows of that table. An
  empty string gives \<^verbatim>\<open>RuneError\<close> and the width 0, an encoding that is not valid gives
  \<^verbatim>\<open>RuneError\<close> and the width 1.
\<close>

type_synonym rune = int

definition RuneError :: rune where
  "RuneError = 0xFFFD"

definition DecodeRuneInString :: "string \<Rightarrow> rune \<times> nat" where
  "DecodeRuneInString s =
     (case s of
        [] \<Rightarrow> (RuneError, 0)
      | c0 # s' \<Rightarrow>
          let s0 = (of_char c0 :: int) in
          if s0 < 0x80 then (s0, 1)
          else if s0 < 0xC2 \<or> 0xF4 < s0 then (RuneError, 1)
          else
            let sz = (if s0 < 0xE0 then 2 else if s0 < 0xF0 then 3 else 4 :: nat);
                lo = (if s0 = 0xE0 then 0xA0 else if s0 = 0xF0 then 0x90 else 0x80 :: int);
                hi = (if s0 = 0xED then 0x9F else if s0 = 0xF4 then 0x8F else 0xBF :: int)
            in if length s < sz then (RuneError, 1)
               else
                 let s1 = (of_char (s ! 1) :: int) in
                 if s1 < lo \<or> hi < s1 then (RuneError, 1)
                 else if sz \<le> 2 then (push_bit 6 (s0 AND 0x1F) OR (s1 AND 0x3F), 2)
                 else
                   let s2 = (of_char (s ! 2) :: int) in
                   if s2 < 0x80 \<or> 0xBF < s2 then (RuneError, 1)
                   else if sz \<le> 3 then
                     (push_bit 12 (s0 AND 0x0F) OR push_bit 6 (s1 AND 0x3F) OR (s2 AND 0x3F), 3)
                   else
                     let s3 = (of_char (s ! 3) :: int) in
                     if s3 < 0x80 \<or> 0xBF < s3 then (RuneError, 1)
                     else (push_bit 18 (s0 AND 0x07) OR push_bit 12 (s1 AND 0x3F)
                             OR push_bit 6 (s2 AND 0x3F) OR (s3 AND 0x3F), 4))"

text \<open>
  \<^verbatim>\<open>unicode.IsUpper\<close>. Up to \<^verbatim>\<open>MaxLatin1\<close> the library reads the property of the
  character: the letters \<^verbatim>\<open>A\<close> to \<^verbatim>\<open>Z\<close> and the capital letters of Latin-1. Beyond, it
  searches the range table \<^verbatim>\<open>unicode.Upper\<close>, the characters of general category Lu:
  triples of a first and a last code point and a stride. The table is data of the library,
  given here as of Unicode 14.0.0; later versions of the standard add ranges to it.
\<close>

definition MaxLatin1 :: rune where
  "MaxLatin1 = 0xFF"

definition Upper :: "(rune \<times> rune \<times> int) list" where
  "Upper =
     [(0x0100, 0x0136, 2), (0x0139, 0x0147, 2), (0x014A, 0x0178, 2), (0x0179, 0x017D, 2),
      (0x0181, 0x0182, 1), (0x0184, 0x0184, 1), (0x0186, 0x0187, 1), (0x0189, 0x018B, 1),
      (0x018E, 0x0191, 1), (0x0193, 0x0194, 1), (0x0196, 0x0198, 1), (0x019C, 0x019D, 1),
      (0x019F, 0x01A0, 1), (0x01A2, 0x01A6, 2), (0x01A7, 0x01A7, 1), (0x01A9, 0x01A9, 1),
      (0x01AC, 0x01AC, 1), (0x01AE, 0x01AF, 1), (0x01B1, 0x01B3, 1), (0x01B5, 0x01B5, 1),
      (0x01B7, 0x01B8, 1), (0x01BC, 0x01BC, 1), (0x01C4, 0x01CD, 3), (0x01CF, 0x01DB, 2),
      (0x01DE, 0x01EE, 2), (0x01F1, 0x01F1, 1), (0x01F4, 0x01F4, 1), (0x01F6, 0x01F8, 1),
      (0x01FA, 0x0232, 2), (0x023A, 0x023B, 1), (0x023D, 0x023E, 1), (0x0241, 0x0241, 1),
      (0x0243, 0x0246, 1), (0x0248, 0x024E, 2), (0x0370, 0x0370, 1), (0x0372, 0x0372, 1),
      (0x0376, 0x0376, 1), (0x037F, 0x037F, 1), (0x0386, 0x0386, 1), (0x0388, 0x038A, 1),
      (0x038C, 0x038C, 1), (0x038E, 0x038F, 1), (0x0391, 0x03A1, 1), (0x03A3, 0x03AB, 1),
      (0x03CF, 0x03CF, 1), (0x03D2, 0x03D4, 1), (0x03D8, 0x03EE, 2), (0x03F4, 0x03F4, 1),
      (0x03F7, 0x03F7, 1), (0x03F9, 0x03FA, 1), (0x03FD, 0x042F, 1), (0x0460, 0x0480, 2),
      (0x048A, 0x04C0, 2), (0x04C1, 0x04CD, 2), (0x04D0, 0x052E, 2), (0x0531, 0x0556, 1),
      (0x10A0, 0x10C5, 1), (0x10C7, 0x10C7, 1), (0x10CD, 0x10CD, 1), (0x13A0, 0x13F5, 1),
      (0x1C90, 0x1CBA, 1), (0x1CBD, 0x1CBF, 1), (0x1E00, 0x1E94, 2), (0x1E9E, 0x1EFE, 2),
      (0x1F08, 0x1F0F, 1), (0x1F18, 0x1F1D, 1), (0x1F28, 0x1F2F, 1), (0x1F38, 0x1F3F, 1),
      (0x1F48, 0x1F4D, 1), (0x1F59, 0x1F5F, 2), (0x1F68, 0x1F6F, 1), (0x1FB8, 0x1FBB, 1),
      (0x1FC8, 0x1FCB, 1), (0x1FD8, 0x1FDB, 1), (0x1FE8, 0x1FEC, 1), (0x1FF8, 0x1FFB, 1),
      (0x2102, 0x2102, 1), (0x2107, 0x2107, 1), (0x210B, 0x210D, 1), (0x2110, 0x2112, 1),
      (0x2115, 0x2115, 1), (0x2119, 0x211D, 1), (0x2124, 0x212A, 2), (0x212B, 0x212D, 1),
      (0x2130, 0x2133, 1), (0x213E, 0x213F, 1), (0x2145, 0x2145, 1), (0x2183, 0x2183, 1),
      (0x2C00, 0x2C2F, 1), (0x2C60, 0x2C60, 1), (0x2C62, 0x2C64, 1), (0x2C67, 0x2C6D, 2),
      (0x2C6E, 0x2C70, 1), (0x2C72, 0x2C72, 1), (0x2C75, 0x2C75, 1), (0x2C7E, 0x2C80, 1),
      (0x2C82, 0x2CE2, 2), (0x2CEB, 0x2CEB, 1), (0x2CED, 0x2CED, 1), (0x2CF2, 0x2CF2, 1),
      (0xA640, 0xA66C, 2), (0xA680, 0xA69A, 2), (0xA722, 0xA72E, 2), (0xA732, 0xA76E, 2),
      (0xA779, 0xA77D, 2), (0xA77E, 0xA786, 2), (0xA78B, 0xA78B, 1), (0xA78D, 0xA78D, 1),
      (0xA790, 0xA790, 1), (0xA792, 0xA792, 1), (0xA796, 0xA7AA, 2), (0xA7AB, 0xA7AE, 1),
      (0xA7B0, 0xA7B4, 1), (0xA7B6, 0xA7C4, 2), (0xA7C5, 0xA7C7, 1), (0xA7C9, 0xA7C9, 1),
      (0xA7D0, 0xA7D0, 1), (0xA7D6, 0xA7D6, 1), (0xA7D8, 0xA7D8, 1), (0xA7F5, 0xA7F5, 1),
      (0xFF21, 0xFF3A, 1), (0x10400, 0x10427, 1), (0x104B0, 0x104D3, 1), (0x10570, 0x1057A, 1),
      (0x1057C, 0x1058A, 1), (0x1058C, 0x10592, 1), (0x10594, 0x10595, 1), (0x10C80, 0x10CB2, 1),
      (0x118A0, 0x118BF, 1), (0x16E40, 0x16E5F, 1), (0x1D400, 0x1D419, 1), (0x1D434, 0x1D44D, 1),
      (0x1D468, 0x1D481, 1), (0x1D49C, 0x1D49C, 1), (0x1D49E, 0x1D49F, 1), (0x1D4A2, 0x1D4A2, 1),
      (0x1D4A5, 0x1D4A6, 1), (0x1D4A9, 0x1D4AC, 1), (0x1D4AE, 0x1D4B5, 1), (0x1D4D0, 0x1D4E9, 1),
      (0x1D504, 0x1D505, 1), (0x1D507, 0x1D50A, 1), (0x1D50D, 0x1D514, 1), (0x1D516, 0x1D51C, 1),
      (0x1D538, 0x1D539, 1), (0x1D53B, 0x1D53E, 1), (0x1D540, 0x1D544, 1), (0x1D546, 0x1D546, 1),
      (0x1D54A, 0x1D550, 1), (0x1D56C, 0x1D585, 1), (0x1D5A0, 0x1D5B9, 1), (0x1D5D4, 0x1D5ED, 1),
      (0x1D608, 0x1D621, 1), (0x1D63C, 0x1D655, 1), (0x1D670, 0x1D689, 1), (0x1D6A8, 0x1D6C0, 1),
      (0x1D6E2, 0x1D6FA, 1), (0x1D71C, 0x1D734, 1), (0x1D756, 0x1D76E, 1), (0x1D790, 0x1D7A8, 1),
      (0x1D7CA, 0x1D7CA, 1), (0x1E900, 0x1E921, 1)]"

definition is_in :: "(rune \<times> rune \<times> int) list \<Rightarrow> rune \<Rightarrow> bool" where
  "is_in ranges r =
     list_ex (\<lambda>(lo, hi, stride). lo \<le> r \<and> r \<le> hi \<and> (r - lo) mod stride = 0) ranges"

definition IsUpper :: "rune \<Rightarrow> bool" where
  "IsUpper r =
     (if r \<le> MaxLatin1 then
        (0x41 \<le> r \<and> r \<le> 0x5A) \<or> (0xC0 \<le> r \<and> r \<le> 0xD6) \<or> (0xD8 \<le> r \<and> r \<le> 0xDE)
      else is_in Upper r)"

text \<open>\<^verbatim>\<open>isExported\<close>: is the first rune of the name upper case.\<close>

definition isExported :: "string \<Rightarrow> bool" where
  "isExported name = (case DecodeRuneInString name of (r, sz) \<Rightarrow> IsUpper r)"

text \<open>\<^verbatim>\<open>isExportedOrBuiltinType\<close>: the loop strips pointers, then looks at name and package.\<close>

fun isExportedOrBuiltinType :: "rtype \<Rightarrow> bool" where
  "isExportedOrBuiltinType (RType (Ptr t) n p s ms) = isExportedOrBuiltinType t"
| "isExportedOrBuiltinType (RType k n p s ms) = (isExported n \<or> p = [])"

subsection \<open>Contexts, messages, codecs\<close>

text \<open>
  A \<^verbatim>\<open>context.Context\<close> is observed through what the package reads or writes: the metadata
  carrier that \<^verbatim>\<open>metadata.NewContext\<close> attaches and the value stored under \<^verbatim>\<open>maxMsgSizeKey\<close>;
  \<open>ctx_id\<close> tells contexts of the caller apart.
\<close>

datatype Context =
  Ctx (ctx_id: nat) (ctx_metadata: "(string \<rightharpoonup> string) option") (ctx_maxMsgSize: "int option")

definition Background :: Context where
  "Background = Ctx 0 None None"

definition NewContext :: "Context \<Rightarrow> (string \<rightharpoonup> string) \<Rightarrow> Context" where
  "NewContext ctx md = Ctx (ctx_id ctx) (Some md) (ctx_maxMsgSize ctx)"

type_synonym bytes = "8 word list"

text \<open>The decoded request value that a handler receives: a value of a type, contents opaque.\<close>

datatype payload = Payload rtype bytes

record broker_Message =
  Header :: "string \<rightharpoonup> string"
  Body :: bytes

record Event =
  Message :: broker_Message

text \<open>
  A codec reads from a buffer: \<open>ReadHeader\<close> returns the rest of the buffer or an error,
  \<open>ReadBody\<close> decodes the rest into a fresh value of the handler's request type.
\<close>

record Codec =
  ReadHeader :: "bytes \<Rightarrow> error + bytes"
  ReadBody :: "bytes \<Rightarrow> rtype \<Rightarrow> error + payload"

definition ErrUnknownContentType :: error where
  "ErrUnknownContentType = ''unknown content-type''"

record tcpMessage =
  msg_topic :: string
  contentType :: string
  payload :: payload
  header :: "string \<rightharpoonup> string"
  body :: bytes
  codec :: Codec

type_synonym SubscriberFunc = "Context \<Rightarrow> tcpMessage \<Rightarrow> error option"

type_synonym SubscriberWrapper = "SubscriberFunc \<Rightarrow> SubscriberFunc"

subsection \<open>Options of the \<^verbatim>\<open>server\<close> package\<close>

record Options =
  opt_Codecs :: "string \<rightharpoonup> Codec"
  opt_SubWrappers :: "SubscriberWrapper list"
  opt_Context :: "Context option"
  opt_RegisterCheck :: "Context option \<Rightarrow> error option"

record SubscriberOptions =
  sub_AutoAck :: bool
  sub_Queue :: string
  sub_Internal :: bool
  sub_Context :: "Context option"

type_synonym SubscriberOption = "SubscriberOptions \<Rightarrow> SubscriberOptions"

record HandlerOptions =
  hdl_Internal :: bool
  hdl_Metadata :: "string \<rightharpoonup> (string \<rightharpoonup> string)"

record Endpoint =
  Name :: string
  Request :: "rtype option"
  Metadata :: "string \<rightharpoonup> string"

record Node =
  Id :: string
  node_Metadata :: "string \<rightharpoonup> string"

record Service =
  Nodes :: "Node list"
  Endpoints :: "Endpoint list"

subsection \<open>Subscribers\<close>

text \<open>
  The arguments \<^verbatim>\<open>handler.method.Call\<close> receives: the receiver \<^verbatim>\<open>sb.rcvr\<close>, the context, the
  payload. A callable returns the error of \<^verbatim>\<open>returnValues[0]\<close> (\<open>None\<close> for \<^verbatim>\<open>nil\<close>).
\<close>

datatype arg = ArgRcvr | ArgCtx Context | ArgPayload payload

type_synonym callable = "arg list \<Rightarrow> error option"

text \<open>
  The \<^verbatim>\<open>interface{}\<close> value given to \<^verbatim>\<open>NewSubscriber\<close>: its dynamic type (\<open>None\<close> for the nil
  interface), whether it is a nil pointer, the function it is (kind Func) and the functions of
  its methods (\<^verbatim>\<open>typ.Method(m).Func\<close>).
\<close>

record interface =
  TypeOf :: "rtype option"
  IsNil :: bool
  ValueOf :: callable
  Method_Func :: "nat \<Rightarrow> callable"

record handler =
  hmethod :: callable
  reqType :: "rtype option"
  ctxType :: "rtype option"

record tcpSubscriber =
  topic :: string
  sub_typ :: rtype
  subscriber :: interface
  handlers :: "handler list"
  endpoints :: "Endpoint list"
  sub_opts :: SubscriberOptions

text \<open>\<^verbatim>\<open>reflect.Indirect(hdlr).Type().Name()\<close>: one pointer is stripped.\<close>

definition Indirect_Name :: "rtype \<Rightarrow> string" where
  "Indirect_Name t = (case Kind t of Ptr e \<Rightarrow> Type_Name e | _ \<Rightarrow> Type_Name t)"

text \<open>
  \<^verbatim>\<open>registry.ExtractSubValue\<close> belongs to another package: it describes the request
  parameter of a function type, the last of one to three parameters. The model keeps the type
  it describes.
\<close>

definition ExtractSubValue :: "rtype list \<Rightarrow> rtype option" where
  "ExtractSubValue ins =
     (if length ins = 1 then Some (ins ! 0)
      else if length ins = 2 then Some (ins ! 1)
      else if length ins = 3 then Some (ins ! 2)
      else None)"

definition sub_Endpoint :: "string \<Rightarrow> rtype list \<Rightarrow> string \<Rightarrow> Endpoint" where
  "sub_Endpoint name ins tpc =
     \<lparr>Name = name,
      Request = ExtractSubValue ins,
      Metadata = [''topic'' \<mapsto> tpc, ''subscriber'' \<mapsto> ''true'']\<rparr>"

text \<open>
  \<^verbatim>\<open>reflect.Indirect\<close> of a nil pointer is the zero \<^verbatim>\<open>Value\<close>, and its \<^verbatim>\<open>Type()\<close> panics.
\<close>

definition nil_pointer :: "interface \<Rightarrow> rtype \<Rightarrow> bool" where
  "nil_pointer sub t = (case Kind t of Ptr e \<Rightarrow> IsNil sub | _ \<Rightarrow> False)"

text \<open>
  \<^verbatim>\<open>newSubscriber\<close>. The result is \<open>None\<close> where the source panics (a nil interface, or a
  nil pointer that is not a function). The receiver \<^verbatim>\<open>rcvr\<close> is the value itself. The options
  start from \<^verbatim>\<open>AutoAck: true\<close> and the zero value of every other field.
\<close>

definition func_handler :: "interface \<Rightarrow> rtype \<Rightarrow> handler" where
  "func_handler sub t =
     (let ins = Func_In (Kind t) in
      \<lparr>hmethod = ValueOf sub,
       reqType = (if length ins = 1 then Some (ins ! 0)
                  else if length ins = 2 then Some (ins ! 1) else None),
       ctxType = (if length ins = 2 then Some (ins ! 0) else None)\<rparr>)"

definition method_handler :: "interface \<Rightarrow> rtype \<Rightarrow> nat \<Rightarrow> handler" where
  "method_handler sub t m =
     (let ins = Method_In (Methods t ! m) in
      \<lparr>hmethod = Method_Func sub m,
       reqType = (if length ins = 2 then Some (ins ! 1)
                  else if length ins = 3 then Some (ins ! 2) else None),
       ctxType = (if length ins = 3 then Some (ins ! 1) else None)\<rparr>)"

definition newSubscriber :: "string \<Rightarrow> interface \<Rightarrow> SubscriberOption list \<Rightarrow> tcpSubscriber option" where
  "newSubscriber tpc sub os =
     (let options = fold (\<lambda>opt. opt) os
            \<lparr>sub_AutoAck = True, sub_Queue = [], sub_Internal = False, sub_Context = None\<rparr>
      in case TypeOf sub of
           None \<Rightarrow> None
         | Some t \<Rightarrow>
             (case Kind t of
                Func ins outs \<Rightarrow>
                  Some \<lparr>topic = tpc, sub_typ = t, subscriber = sub,
                        handlers = [func_handler sub t],
                        endpoints = [sub_Endpoint ''Func'' ins tpc],
                        sub_opts = options\<rparr>
              | _ \<Rightarrow>
                  if nil_pointer sub t then None
                  else
                    Some \<lparr>topic = tpc, sub_typ = t, subscriber = sub,
                          handlers = map (method_handler sub t) [0..<NumMethod t],
                          endpoints =
                            map (\<lambda>m. sub_Endpoint (Indirect_Name t @ ''.'' @ Method_Name (Methods t ! m))
                                        (Method_In (Methods t ! m)) tpc)
                              [0..<NumMethod t],
                          sub_opts = options\<rparr>))"

text \<open>\<^verbatim>\<open>validateSubscriber\<close>: the checks on a function, and on each method in turn.\<close>

definition validate_func :: "rtype \<Rightarrow> error option" where
  "validate_func t =
     (let name = ''Func'' in
      if NumIn t \<noteq> 2 then
        Some (''subscriber '' @ name @ '' takes wrong number of args: '' @ itoa (NumIn t)
              @ '' required signature '' @ subSig)
      else
        let argType = Func_In (Kind t) ! 1 in
        if \<not> isExportedOrBuiltinType argType then
          Some (''subscriber '' @ name @ '' argument type not exported: '' @ Type_String argType)
        else if NumOut t \<noteq> 1 then
          Some (''subscriber '' @ name @ '' has wrong number of outs: '' @ itoa (NumOut t)
                @ '' require signature '' @ subSig)
        else if Func_Out (Kind t) ! 0 \<noteq> typeOfError then
          Some (''subscriber '' @ name @ '' returns '' @ Type_String (Func_Out (Kind t) ! 0) @ '' not error'')
        else None)"

definition validate_method :: "string \<Rightarrow> rmethod \<Rightarrow> error option" where
  "validate_method name m =
     (if length (Method_In m) \<noteq> 3 then
        Some (''subscriber '' @ name @ ''.'' @ Method_Name m @ '' takes wrong number of args: ''
              @ itoa (length (Method_In m)) @ '' required signature '' @ subSig)
      else
        let argType = Method_In m ! 2 in
        if \<not> isExportedOrBuiltinType argType then
          Some (name @ '' argument type not exported: '' @ Type_String argType)
        else if length (Method_Out m) \<noteq> 1 then
          Some (''subscriber '' @ name @ ''.'' @ Method_Name m @ '' has wrong number of outs: ''
                @ itoa (length (Method_Out m)) @ '' require signature '' @ subSig)
        else if Method_Out m ! 0 \<noteq> typeOfError then
          Some (''subscriber '' @ name @ ''.'' @ Method_Name m @ '' returns ''
                @ Type_String (Method_Out m ! 0) @ '' not error'')
        else None)"

fun validate_methods :: "string \<Rightarrow> rmethod list \<Rightarrow> error option" where
  "validate_methods name [] = None"
| "validate_methods name (m # ms) =
     (case validate_method name m of Some e \<Rightarrow> Some e | None \<Rightarrow> validate_methods name ms)"

definition validateSubscriber :: "tcpSubscriber \<Rightarrow> result" where
  "validateSubscriber sub =
     (case TypeOf (subscriber sub) of
        None \<Rightarrow> Panicked
      | Some t \<Rightarrow>
          (case Kind t of
             Func ins outs \<Rightarrow>
               (case validate_func t of Some e \<Rightarrow> Failure e | None \<Rightarrow> Success)
           | _ \<Rightarrow>
               if nil_pointer (subscriber sub) t then Panicked
               else (case validate_methods (Indirect_Name t) (Methods t) of
                       Some e \<Rightarrow> Failure e | None \<Rightarrow> Success)))"

subsection \<open>The server\<close>

text \<open>
  A \<^verbatim>\<open>*tcpSubscriber\<close> is an address into a store of subscriber objects, which never change
  once \<^verbatim>\<open>NewSubscriber\<close> has built them; an address outside the store stands for the nil
  pointer. The registry \<^verbatim>\<open>subscribers\<close> is keyed by address, as the Go map is keyed by
  pointer: two objects with the same contents are two keys.
\<close>

type_synonym ref = nat

type_synonym heap = "tcpSubscriber list"

definition NewSubscriber :: "heap \<Rightarrow> string \<Rightarrow> interface \<Rightarrow> SubscriberOption list \<Rightarrow> (ref \<times> heap) option" where
  "NewSubscriber hp tpc sub os =
     (case newSubscriber tpc sub os of
        None \<Rightarrow> None
      | Some obj \<Rightarrow> Some (length hp, hp @ [obj]))"

text \<open>What may be passed as a \<^verbatim>\<open>server.Subscriber\<close>.\<close>

datatype server_Subscriber =
  TcpSubscriber ref
| OtherSubscriber nat
| NilSubscriber

record broker_Subscriber =
  bs_Topic :: string
  bs_id :: nat

datatype SubscribeOption =
  SubscribeGroup string
| SubscribeContext "Context option"
| SubscribeAutoAck bool

text \<open>The closure \<^verbatim>\<open>createSubHandler(sb, config)\<close>, by the values it captures.\<close>

datatype broker_Handler = SubHandler ref Options

record tcpHandler =
  eps :: "Endpoint list"
  th_hd :: interface
  th_opts :: HandlerOptions
  maxMsgSize :: int

record tcpServer =
  opts :: Options
  hd :: "tcpHandler option"
  subscribers :: "ref \<rightharpoonup> broker_Subscriber list"
  registered :: bool
  rsvc :: "Service option"

definition NewServer :: "Options \<Rightarrow> tcpServer" where
  "NewServer options =
     \<lparr>opts = options, hd = None, subscribers = Map.empty, registered = False, rsvc = None\<rparr>"

definition newCodec :: "tcpServer \<Rightarrow> string \<Rightarrow> error + Codec" where
  "newCodec h ct = (case opt_Codecs (opts h) ct of Some cf \<Rightarrow> Inr cf | None \<Rightarrow> Inl ErrUnknownContentType)"

definition Init :: "tcpServer \<Rightarrow> (Options \<Rightarrow> Options) list \<Rightarrow> tcpServer" where
  "Init h os = h\<lparr>opts := fold (\<lambda>opt. opt) os (opts h)\<rparr>"

definition Handle :: "tcpServer \<Rightarrow> tcpHandler \<Rightarrow> tcpServer" where
  "Handle h handler = h\<lparr>hd := Some handler\<rparr>"

text \<open>
  \<^verbatim>\<open>NewHandler\<close>. \<open>ks\<close> is the order in which the range visits \<^verbatim>\<open>options.Metadata\<close>. The source
  panics when the context of the options is nil (\<open>None\<close>).
\<close>

definition NewHandler :: "tcpServer \<Rightarrow> string list \<Rightarrow> interface \<Rightarrow> HandlerOptions \<Rightarrow> tcpHandler option" where
  "NewHandler h ks handler options =
     (let eps0 =
            (if \<not> hdl_Internal options then
               map (\<lambda>name. \<lparr>Name = name, Request = None,
                              Metadata = (case hdl_Metadata options name of Some md \<Rightarrow> md | None \<Rightarrow> Map.empty)\<rparr>) ks
             else [])
      in case opt_Context (opts h) of
           None \<Rightarrow> None
         | Some c \<Rightarrow>
             Some \<lparr>eps = eps0, th_hd = handler, th_opts = options,
                   maxMsgSize = (case ctx_maxMsgSize c of
                                   Some sz \<Rightarrow> if sz > 0 then sz else 0
                                 | None \<Rightarrow> 0)\<rparr>)"

text \<open>
  Modelled from the spec: \<^verbatim>\<open>tcpHandler.Endpoints\<close> is not among the sources; an Endpoint is
  ``derived from a handler or subscriber at registration-build time'', so the accessor returns
  the list \<^verbatim>\<open>NewHandler\<close> built.
\<close>

definition tcpHandler_Endpoints :: "tcpHandler \<Rightarrow> Endpoint list" where
  "tcpHandler_Endpoints th = eps th"

text \<open>\<^verbatim>\<open>Subscribe\<close>. \<^verbatim>\<open>%v\<close> prints the server through its \<^verbatim>\<open>String()\<close> method: \<^verbatim>\<open>tcp\<close>.\<close>

definition server_String :: "tcpServer \<Rightarrow> string" where
  "server_String s = ''tcp''"

definition Subscribe :: "heap \<Rightarrow> tcpServer \<Rightarrow> server_Subscriber \<Rightarrow> result \<times> tcpServer" where
  "Subscribe hp h sb =
     (case sb of
        TcpSubscriber r \<Rightarrow>
          if \<not> r < length hp then (Panicked, h)
          else
            let sub = hp ! r in
            if length (handlers sub) = 0 then
              (Failure ''invalid subscriber: no handler functions'', h)
            else
              (case validateSubscriber sub of
                 Failure err \<Rightarrow> (Failure err, h)
               | Panicked \<Rightarrow> (Panicked, h)
               | Success \<Rightarrow>
                   (case subscribers h r of
                      Some _ \<Rightarrow> (Failure (''subscriber '' @ server_String h @ '' already exists''), h)
                    | None \<Rightarrow> (Success, h\<lparr>subscribers := (subscribers h)(r \<mapsto> [])\<rparr>)))
      | _ \<Rightarrow> (Failure ''invalid subscriber: expected *tcpSubscriber'', h))"

subsection \<open>Register and Deregister\<close>

text \<open>
  The collaborators of one call: the directory functions of package \<^verbatim>\<open>server\<close> and the
  bus. Every call made to them is recorded as an effect, whether it succeeds or not.
\<close>

record env =
  NewRegisterService :: "tcpServer \<Rightarrow> error + Service"
  DefaultRegisterFunc :: "Service \<Rightarrow> Options \<Rightarrow> error option"
  DefaultDeregisterFunc :: "Service \<Rightarrow> Options \<Rightarrow> error option"
  Broker_Subscribe :: "Context option \<Rightarrow> string \<Rightarrow> broker_Handler \<Rightarrow> SubscribeOption list \<Rightarrow> error + broker_Subscriber"

datatype effect =
  Call_DefaultRegisterFunc Service
| Call_DefaultDeregisterFunc Service
| Call_Broker_Subscribe "Context option" string broker_Handler "SubscribeOption list"
| Call_Unsubscribe broker_Subscriber

text \<open>
  \<^verbatim>\<open>sort.Slice\<close>, as the insertion sort the Go library runs on short slices: each element
  in turn moves left while it is less than its left neighbour. \<open>bubble\<close> works on the
  reversed prefix, nearest neighbour first. The library does not promise an order among
  elements that compare equal; the order of the input, which is the order of a map range
  here, is arbitrary in every theorem.
\<close>

fun bubble :: "('a \<Rightarrow> 'a \<Rightarrow> bool) \<Rightarrow> 'a \<Rightarrow> 'a list \<Rightarrow> 'a list" where
  "bubble lt x [] = [x]"
| "bubble lt x (y # ys) = (if lt x y then y # bubble lt x ys else x # y # ys)"

definition sort_Slice :: "('a \<Rightarrow> 'a \<Rightarrow> bool) \<Rightarrow> 'a list \<Rightarrow> 'a list" where
  "sort_Slice lt xs = rev (foldl (\<lambda>pre x. bubble lt x pre) [] xs)"

text \<open>
  The part of \<^verbatim>\<open>Register\<close> that builds the record to advertise: the subscribers that are
  not internal, in the order \<open>ks\<close> of the range, sorted by descending topic; then the record
  with the protocol metadata on its first node, the endpoints of the handler and the
  endpoints of these subscribers.
\<close>

definition advertised_subscribers :: "heap \<Rightarrow> ref list \<Rightarrow> ref list" where
  "advertised_subscribers hp ks =
     sort_Slice (\<lambda>a b. topic (hp ! a) > topic (hp ! b)) (filter (\<lambda>e. \<not> sub_Internal (sub_opts (hp ! e))) ks)"

definition advertised :: "heap \<Rightarrow> ref list \<Rightarrow> Endpoint list \<Rightarrow> Node \<Rightarrow> Node list \<Rightarrow> Service \<Rightarrow> Service" where
  "advertised hp ks es n0 ns service0 =
     (let service1 = service0
            \<lparr>Nodes := n0\<lparr>node_Metadata := (node_Metadata n0)(''protocol'' \<mapsto> ''tcp'', ''transport'' \<mapsto> ''tcp'')\<rparr> # ns,
             Endpoints := es\<rparr>;
          subscriberList = advertised_subscribers hp ks
      in service1\<lparr>Endpoints := Endpoints service1 @ concat (map (\<lambda>e. endpoints (hp ! e)) subscriberList)\<rparr>)"

text \<open>The loop of \<^verbatim>\<open>Register\<close> that arms each subscriber on the bus; it stops at the first error.\<close>

fun subscribe_loop ::
  "env \<Rightarrow> heap \<Rightarrow> Options \<Rightarrow> ref list \<Rightarrow> (ref \<rightharpoonup> broker_Subscriber list)
    \<Rightarrow> error option \<times> (ref \<rightharpoonup> broker_Subscriber list) \<times> effect list" where
  "subscribe_loop e hp config [] m = (None, m, [])"
| "subscribe_loop e hp config (sb # rest) m =
     (let handler = SubHandler sb config;
          so = sub_opts (hp ! sb);
          os0 = (if length (sub_Queue so) > 0 then [SubscribeGroup (sub_Queue so)] else []);
          subCtx = (case sub_Context so of Some cx \<Rightarrow> Some cx | None \<Rightarrow> opt_Context config);
          os = os0 @ [SubscribeContext subCtx, SubscribeAutoAck (sub_AutoAck so)];
          call = Call_Broker_Subscribe subCtx (topic (hp ! sb)) handler os
      in case Broker_Subscribe e subCtx (topic (hp ! sb)) handler os of
           Inl err \<Rightarrow> (Some err, m, [call])
         | Inr sub \<Rightarrow>
             (case subscribe_loop e hp config rest (m(sb \<mapsto> [sub])) of
                (r, m', tr) \<Rightarrow> (r, m', call # tr)))"

text \<open>
  \<^verbatim>\<open>Register\<close>. \<open>ks1\<close> and \<open>ks2\<close> are the orders of its two ranges over \<^verbatim>\<open>h.subscribers\<close>.
  The source panics when no handler is set (\<^verbatim>\<open>h.hd.Endpoints()\<close>) and when the new
  record has no node (\<^verbatim>\<open>service.Nodes[0]\<close>).
\<close>

definition Register :: "env \<Rightarrow> ref list \<Rightarrow> ref list \<Rightarrow> heap \<Rightarrow> tcpServer \<Rightarrow> result \<times> tcpServer \<times> effect list" where
  "Register e ks1 ks2 hp h =
     (case hd h of
        None \<Rightarrow> (Panicked, h, [])
      | Some th \<Rightarrow>
          let config = opts h; es = tcpHandler_Endpoints th in
          (case rsvc h of
             Some cached \<Rightarrow>
               (case DefaultRegisterFunc e cached config of
                  Some err \<Rightarrow> (Failure err, h, [Call_DefaultRegisterFunc cached])
                | None \<Rightarrow> (Success, h, [Call_DefaultRegisterFunc cached]))
           | None \<Rightarrow>
               (case NewRegisterService e h of
                  Inl err \<Rightarrow> (Failure err, h, [])
                | Inr service0 \<Rightarrow>
                    (case Nodes service0 of
                       [] \<Rightarrow> (Panicked, h, [])
                     | n0 # ns \<Rightarrow>
                         let service = advertised hp ks1 es n0 ns service0;
                             was_registered = registered h
                         in (case DefaultRegisterFunc e service config of
                               Some err \<Rightarrow> (Failure err, h, [Call_DefaultRegisterFunc service])
                             | None \<Rightarrow>
                                 if was_registered then (Success, h, [Call_DefaultRegisterFunc service])
                                 else if registered h then (Success, h, [Call_DefaultRegisterFunc service])
                                 else
                                   (case subscribe_loop e hp config ks2 (subscribers h) of
                                      (Some err, m, tr) \<Rightarrow>
                                        (Failure err, h\<lparr>subscribers := m\<rparr>, Call_DefaultRegisterFunc service # tr)
                                    | (None, m, tr) \<Rightarrow>
                                        (Success, h\<lparr>subscribers := m, registered := True, rsvc := Some service\<rparr>,
                                         Call_DefaultRegisterFunc service # tr)))))))"

text \<open>
  \<^verbatim>\<open>Deregister\<close>. \<open>ks\<close> is the order of its range over \<^verbatim>\<open>h.subscribers\<close>. The unsubscribe
  calls run in goroutines and their errors are only logged; the context they receive is a
  variable shared between them and is not recorded.
\<close>

definition Deregister :: "env \<Rightarrow> ref list \<Rightarrow> heap \<Rightarrow> tcpServer \<Rightarrow> result \<times> tcpServer \<times> effect list" where
  "Deregister e ks hp h =
     (let config = opts h in
      case NewRegisterService e h of
        Inl err \<Rightarrow> (Failure err, h, [])
      | Inr service \<Rightarrow>
          (case DefaultDeregisterFunc e service config of
             Some err \<Rightarrow> (Failure err, h, [Call_DefaultDeregisterFunc service])
           | None \<Rightarrow>
               if \<not> registered h then (Success, h, [Call_DefaultDeregisterFunc service])
               else
                 (Success,
                  h\<lparr>registered := False,
                    subscribers := fold (\<lambda>sb m. m(sb \<mapsto> [])) ks (subscribers h)\<rparr>,
                  Call_DefaultDeregisterFunc service #
                    concat (map (\<lambda>sb. map Call_Unsubscribe
                                   (case subscribers h sb of Some subs \<Rightarrow> subs | None \<Rightarrow> [])) ks))))"

subsection \<open>The heartbeat of Start\<close>

text \<open>
  One pass of the \<^verbatim>\<open>case <-t.C\<close> branch of the loop in \<^verbatim>\<open>Start\<close>. The result lists the
  calls of \<^verbatim>\<open>h.Deregister()\<close> and \<^verbatim>\<open>h.Register()\<close> the pass makes, in order, with what
  each returned.
\<close>

datatype call = Called_Deregister result | Called_Register result

definition tick :: "env \<Rightarrow> ref list \<Rightarrow> ref list \<Rightarrow> ref list \<Rightarrow> heap \<Rightarrow> tcpServer \<Rightarrow> tcpServer \<times> call list \<times> effect list" where
  "tick e ksd ks1 ks2 hp h =
     (let was_registered = registered h;
          rerr = opt_RegisterCheck (opts h) (opt_Context (opts h))
      in if rerr \<noteq> None \<and> was_registered then
           (case Deregister e ksd hp h of
              (rd, h1, tr1) \<Rightarrow>
                (case Register e ks1 ks2 hp h1 of
                   (rr, h2, tr2) \<Rightarrow> (h2, [Called_Deregister rd, Called_Register rr], tr1 @ tr2)))
         else if rerr \<noteq> None \<and> \<not> was_registered then (h, [], [])
         else
           (case Register e ks1 ks2 hp h of
              (rr, h2, tr2) \<Rightarrow> (h2, [Called_Register rr], tr2)))"

subsection \<open>The accept loop\<close>

text \<open>
  \<^verbatim>\<open>time.Duration\<close> is an \<^verbatim>\<open>int64\<close> count of nanoseconds; \<open>int64\<close> is the wrap-around of
  its arithmetic.
\<close>

type_synonym Duration = int

definition int64 :: "int \<Rightarrow> int" where
  "int64 x = (x + 2 ^ 63) mod 2 ^ 64 - 2 ^ 63"

definition Millisecond :: Duration where
  "Millisecond = 1000000"

definition Second :: Duration where
  "Second = 1000000000"

text \<open>
  What one call of \<^verbatim>\<open>ln.Accept()\<close> gave: a connection, or an error, with whether the error
  is a \<^verbatim>\<open>net.Error\<close> that is \<^verbatim>\<open>Temporary()\<close> and whether a value could be received from
  \<^verbatim>\<open>s.exit\<close> at that moment.
\<close>

datatype accept_result = Conn nat | AcceptError (Temporary: bool) (exit_ready: bool)

datatype serve_action = Sleep Duration | Serve nat

definition next_tempDelay :: "Duration \<Rightarrow> Duration" where
  "next_tempDelay tempDelay =
     (let d = (if tempDelay = 0 then int64 (5 * Millisecond) else int64 (tempDelay * 2));
          max = int64 (1 * Second)
      in if d > max then max else d)"

text \<open>
  \<^verbatim>\<open>serve\<close>, run on the results of the successive calls of \<^verbatim>\<open>Accept\<close>: the loop blocks in
  \<^verbatim>\<open>Accept\<close> when the list is used up. The first argument is the variable \<^verbatim>\<open>tempDelay\<close>.
\<close>

fun serve :: "Duration \<Rightarrow> accept_result list \<Rightarrow> serve_action list" where
  "serve tempDelay [] = []"
| "serve tempDelay (Conn c # rest) = Serve c # serve tempDelay rest"
| "serve tempDelay (AcceptError temporary exit # rest) =
     (if exit then []
      else if temporary then
        (let d = next_tempDelay tempDelay in Sleep d # serve d rest)
      else [])"

fun sleeps :: "serve_action list \<Rightarrow> Duration list" where
  "sleeps [] = []"
| "sleeps (Sleep d # as) = d # sleeps as"
| "sleeps (Serve c # as) = sleeps as"

subsection \<open>The subscription dispatcher\<close>

definition is_Func :: "rtype \<Rightarrow> bool" where
  "is_Func t = (case Kind t of Func ins outs \<Rightarrow> True | _ \<Rightarrow> False)"

text \<open>
  Modelled from the spec: \<^verbatim>\<open>tcpMessage.Payload\<close> is not among the sources; each invocation
  ``receives the shared context, the decoded payload, and event metadata'', so the accessor
  returns the payload the message was built with.
\<close>

definition Payload_of :: "tcpMessage \<Rightarrow> payload" where
  "Payload_of msg = payload msg"

text \<open>The closure \<^verbatim>\<open>fn\<close> built for one handler, and the wrappers applied to it.\<close>

definition fn :: "tcpSubscriber \<Rightarrow> handler \<Rightarrow> SubscriberFunc" where
  "fn sb handler ctx msg =
     (let vals = (if \<not> is_Func (sub_typ sb) then [ArgRcvr] else [])
               @ (if ctxType handler \<noteq> None then [ArgCtx ctx] else [])
               @ [ArgPayload (Payload_of msg)]
      in hmethod handler vals)"

definition wrap :: "SubscriberWrapper list \<Rightarrow> SubscriberFunc \<Rightarrow> SubscriberFunc" where
  "wrap ws f = foldr (\<lambda>w g. w g) ws f"

text \<open>
  Per handler, the closure allocates a value of the request type and decodes into it: first
  the header frame, then the body. A handler without request type panics
  (\<^verbatim>\<open>handler.reqType.Kind()\<close> on a nil type).
\<close>

definition decode :: "Codec \<Rightarrow> broker_Message \<Rightarrow> handler \<Rightarrow> result + payload" where
  "decode cf msg handler =
     (case reqType handler of
        None \<Rightarrow> Inl Panicked
      | Some rt \<Rightarrow>
          (case ReadHeader cf (Body msg) of
             Inl err \<Rightarrow> Inl (Failure err)
           | Inr buf \<Rightarrow>
               (case ReadBody cf buf rt of
                  Inl err \<Rightarrow> Inl (Failure err)
                | Inr req \<Rightarrow> Inr req)))"

text \<open>
  What the goroutine of a handler sends to the channel: the result of the wrapped \<^verbatim>\<open>fn\<close> on
  the shared context and the message built around the decoded payload.
\<close>

definition sent :: "tcpSubscriber \<Rightarrow> Options \<Rightarrow> Codec \<Rightarrow> string \<Rightarrow> broker_Message \<Rightarrow> Context \<Rightarrow> handler \<Rightarrow> payload \<Rightarrow> error option" where
  "sent sb os cf ct msg ctx handler req =
     wrap (opt_SubWrappers os) (fn sb handler) ctx
       \<lparr>msg_topic = topic sb, contentType = ct, payload = req,
        header = Header msg, body = Body msg, codec = cf\<rparr>"

text \<open>One goroutine started for handler \<open>i\<close>, with the result it sent.\<close>

datatype invocation = Invoked nat "error option"

text \<open>
  The first loop of the closure of \<^verbatim>\<open>createSubHandler\<close>, from handler \<open>i\<close> on: decode, build
  \<^verbatim>\<open>fn\<close>, start the goroutine. A decode error returns from the closure at once; the goroutines
  started before it keep running, the handlers after it are never reached.
\<close>

fun launch ::
  "tcpSubscriber \<Rightarrow> Options \<Rightarrow> Codec \<Rightarrow> string \<Rightarrow> broker_Message \<Rightarrow> Context \<Rightarrow> nat \<Rightarrow> handler list
    \<Rightarrow> result \<times> invocation list" where
  "launch sb os cf ct msg ctx i [] = (Success, [])"
| "launch sb os cf ct msg ctx i (handler # rest) =
     (case decode cf msg handler of
        Inl res \<Rightarrow> (res, [])
      | Inr req \<Rightarrow>
          (case launch sb os cf ct msg ctx (Suc i) rest of
             (res, invs) \<Rightarrow> (res, Invoked i (sent sb os cf ct msg ctx handler req) # invs)))"

text \<open>
  The second loop: the results are received in the order \<open>sched\<close> in which the goroutines
  sent them, and the texts of the errors among them are appended in that order.
\<close>

definition received_errors :: "invocation list \<Rightarrow> nat list \<Rightarrow> string list" where
  "received_errors invs sched =
     concat (map (\<lambda>i. case invs ! i of Invoked _ (Some err) \<Rightarrow> [err] | Invoked _ None \<Rightarrow> []) sched)"

definition newline :: string where
  "newline = [CHR 0x0A]"

text \<open>The content type of a message (the empty string when the header is absent), and the
  context the handlers share: the headers but \<^verbatim>\<open>Content-Type\<close>, as metadata.\<close>

definition content_type :: "broker_Message \<Rightarrow> string" where
  "content_type msg = (case Header msg ''Content-Type'' of Some v \<Rightarrow> v | None \<Rightarrow> [])"

definition handler_context :: "broker_Message \<Rightarrow> Context" where
  "handler_context msg = NewContext Background ((Header msg)(''Content-Type'' := None))"

text \<open>
  The closure \<^verbatim>\<open>createSubHandler(sb, opts)\<close> of server \<open>s\<close> applied to the event \<open>p\<close>. Beside
  the returned error the model gives the goroutines the call started.
\<close>

definition createSubHandler :: "tcpServer \<Rightarrow> tcpSubscriber \<Rightarrow> Options \<Rightarrow> nat list \<Rightarrow> Event \<Rightarrow> result \<times> invocation list" where
  "createSubHandler s sb os sched p =
     (let msg = Message p;
          ct = content_type msg
      in case newCodec s ct of
           Inl err \<Rightarrow> (Failure err, [])
         | Inr cf \<Rightarrow>
             let ctx = handler_context msg
             in (case launch sb os cf ct msg ctx 0 (handlers sb) of
                   (Success, invs) \<Rightarrow>
                     let errors = received_errors invs sched in
                     if length errors > 0
                     then (Failure (''subscriber error: '' @ Join errors newline), invs)
                     else (Success, invs)
                 | (res, invs) \<Rightarrow> (res, invs)))"

subsection \<open>Runs of the server\<close>

text \<open>
  \<open>range_order ks m\<close>: \<open>ks\<close> is an order in which a range can visit the keys of \<open>m\<close>.
  \<open>step hp s s'\<close>: one operation of the server takes \<open>s\<close> to \<open>s'\<close>, whatever the collaborators
  answer; \<open>reachable hp s\<close>: \<open>s\<close> is a state of a run that starts from \<^verbatim>\<open>NewServer\<close>.
\<close>

definition range_order :: "'k list \<Rightarrow> ('k \<rightharpoonup> 'v) \<Rightarrow> bool" where
  "range_order ks m = (distinct ks \<and> set ks = dom m)"

inductive step :: "heap \<Rightarrow> tcpServer \<Rightarrow> tcpServer \<Rightarrow> bool" for hp :: heap where
  step_Init: "step hp s (Init s os)"
| step_Handle: "step hp s (Handle s th)"
| step_Subscribe: "Subscribe hp s sb = (r, s') \<Longrightarrow> step hp s s'"
| step_Register:
    "range_order ks1 (subscribers s) \<Longrightarrow> range_order ks2 (subscribers s)
      \<Longrightarrow> Register e ks1 ks2 hp s = (r, s', tr) \<Longrightarrow> step hp s s'"
| step_Deregister:
    "range_order ks (subscribers s) \<Longrightarrow> Deregister e ks hp s = (r, s', tr) \<Longrightarrow> step hp s s'"

definition reachable :: "heap \<Rightarrow> tcpServer \<Rightarrow> bool" where
  "reachable hp s = (\<exists>options. rtranclp (step hp) (NewServer options) s)"

subsection \<open>Invariants of a run\<close>

text \<open>
  What every state of a run satisfies: a registered server has its handler and its cached
  record, and every key of the registry is the address of a stored subscriber and holds at
  most one binding. \<open>allocated hp\<close>: the store was filled by calls of \<^verbatim>\<open>NewSubscriber\<close>.
\<close>

definition registry_inv :: "heap \<Rightarrow> tcpServer \<Rightarrow> bool" where
  "registry_inv hp s =
     ((registered s \<longrightarrow> rsvc s \<noteq> None \<and> hd s \<noteq> None)
      \<and> (\<forall>r subs. subscribers s r = Some subs \<longrightarrow> length subs \<le> 1 \<and> r < length hp))"

inductive allocated :: "heap \<Rightarrow> bool" where
  alloc_empty: "allocated []"
| alloc_new: "allocated hp \<Longrightarrow> NewSubscriber hp tpc sub os = Some (r, hp') \<Longrightarrow> allocated hp'"

subsection \<open>Notions the properties are stated with\<close>


text \<open>The records that a list of effects shows to the directory.\<close>

fun advertised_records :: "effect list \<Rightarrow> Service list" where
  "advertised_records [] = []"
| "advertised_records (Call_DefaultRegisterFunc svc # tr) = svc # advertised_records tr"
| "advertised_records (_ # tr) = advertised_records tr"



text \<open>
  What a list of effects does on the bus whose answers are those of \<open>e\<close>: a call of
  \<^verbatim>\<open>Broker.Subscribe\<close> that succeeds creates the binding it returns, a call of
  \<^verbatim>\<open>Unsubscribe\<close> ends the binding it is made on. \<open>live evs bs\<close> are the bindings of the bus
  after the events \<open>evs\<close>, when \<open>bs\<close> were there before.
\<close>

datatype bus_event = Bound broker_Subscriber | Unbound broker_Subscriber

fun bus_events :: "env \<Rightarrow> effect list \<Rightarrow> bus_event list" where
  "bus_events e [] = []"
| "bus_events e (Call_Broker_Subscribe c t h os # tr) =
     (case Broker_Subscribe e c t h os of
        Inr sub \<Rightarrow> Bound sub # bus_events e tr
      | Inl err \<Rightarrow> bus_events e tr)"
| "bus_events e (Call_Unsubscribe sub # tr) = Unbound sub # bus_events e tr"
| "bus_events e (_ # tr) = bus_events e tr"

fun live :: "bus_event list \<Rightarrow> broker_Subscriber list \<Rightarrow> broker_Subscriber list" where
  "live [] bs = bs"
| "live (Bound b # evs) bs = live evs (bs @ [b])"
| "live (Unbound b # evs) bs = live evs (remove1 b bs)"

text \<open>
  The number of transient failures the accept loop sleeps on: those that \<^verbatim>\<open>Accept\<close> returns
  before the loop ends, on an error met while the exit channel is ready or on an error that
  is not temporary.
\<close>

fun transient_failures :: "accept_result list \<Rightarrow> nat" where
  "transient_failures [] = 0"
| "transient_failures (Conn c # rest) = transient_failures rest"
| "transient_failures (AcceptError temporary exit # rest) =
     (if \<not> exit \<and> temporary then Suc (transient_failures rest) else 0)"

subsection \<open>Concrete inputs\<close>

text \<open>
  The inputs on which the properties below are evaluated. Types: the context, two payload
  types of package \<^verbatim>\<open>main\<close>, a type without methods and a type \<^verbatim>\<open>Orders\<close> with the methods
  \<^verbatim>\<open>Audit\<close> and \<^verbatim>\<open>Created\<close>. \<open>tFunc ins outs\<close> is the function type with these parameters and
  results; \<open>returns r\<close> is a function that returns \<open>r\<close> whatever it is given.
\<close>

definition tContext :: rtype where
  "tContext = RType Other ''Context'' ''context'' ''context.Context'' []"

definition tOrderCreated :: rtype where
  "tOrderCreated = RType Other ''OrderCreated'' ''main'' ''main.OrderCreated'' []"

definition tOrderCreatedAudit :: rtype where
  "tOrderCreatedAudit = RType Other ''OrderCreatedAudit'' ''main'' ''main.OrderCreatedAudit'' []"

definition tFunc :: "rtype list \<Rightarrow> rtype list \<Rightarrow> rtype" where
  "tFunc ins outs = RType (Func ins outs) [] [] ''func'' []"

definition tOrders :: rtype where
  "tOrders = RType Other ''Orders'' ''main'' ''main.Orders'' []"

definition tEmpty :: rtype where
  "tEmpty = RType Other ''Empty'' ''main'' ''main.Empty'' []"

definition tOrdersSvc :: rtype where
  "tOrdersSvc =
     RType Other ''Orders'' ''main'' ''main.Orders''
       [Method ''Audit'' [tOrders, tContext, tOrderCreatedAudit] [typeOfError],
        Method ''Created'' [tOrders, tContext, tOrderCreated] [typeOfError]]"

definition returns :: "error option \<Rightarrow> callable" where
  "returns r vals = r"

text \<open>
  Values given to \<^verbatim>\<open>NewSubscriber\<close>: a function with the parameters \<open>ins\<close> and one \<^verbatim>\<open>error\<close>
  result that returns \<open>r\<close>; a value without methods; a value of type \<^verbatim>\<open>Orders\<close> whose method
  \<^verbatim>\<open>Audit\<close> fails and whose method \<^verbatim>\<open>Created\<close> succeeds. \<open>ex_sub\<close> and \<open>ex_orders_sub\<close> are the
  subscribers \<^verbatim>\<open>newSubscriber\<close> builds from them, \<open>ex_hAudit\<close> and \<open>ex_hCreated\<close> the two
  handlers of the latter; \<open>internal\<close> is the subscriber option that sets \<^verbatim>\<open>Internal\<close>.
\<close>

definition ex_func :: "rtype list \<Rightarrow> error option \<Rightarrow> interface" where
  "ex_func ins r =
     \<lparr>TypeOf = Some (tFunc ins [typeOfError]), IsNil = False,
      ValueOf = returns r, Method_Func = (\<lambda>m. returns r)\<rparr>"

definition ex_empty :: interface where
  "ex_empty = \<lparr>TypeOf = Some tEmpty, IsNil = False, ValueOf = returns None, Method_Func = (\<lambda>m. returns None)\<rparr>"

definition ex_orders :: interface where
  "ex_orders =
     \<lparr>TypeOf = Some tOrdersSvc, IsNil = False, ValueOf = returns None,
      Method_Func = (\<lambda>m. if m = 0 then returns (Some ''audit store unreachable'') else returns None)\<rparr>"

definition ex_sub :: "string \<Rightarrow> rtype list \<Rightarrow> error option \<Rightarrow> tcpSubscriber" where
  "ex_sub tpc ins r = the (newSubscriber tpc (ex_func ins r) [])"

definition ex_orders_sub :: tcpSubscriber where
  "ex_orders_sub = the (newSubscriber ''orders'' ex_orders [])"

definition ex_hAudit :: handler where
  "ex_hAudit = \<lparr>hmethod = returns (Some ''audit store unreachable''), reqType = Some tOrderCreatedAudit, ctxType = Some tContext\<rparr>"

definition ex_hCreated :: handler where
  "ex_hCreated = \<lparr>hmethod = returns None, reqType = Some tOrderCreated, ctxType = Some tContext\<rparr>"

definition internal :: SubscriberOption where
  "internal options = options\<lparr>sub_Internal := True\<rparr>"

text \<open>
  Stores of subscribers: one subscriber on topic \<^verbatim>\<open>orders\<close>; the same and a value without
  handlers; three subscribers on distinct topics, the last one internal; two subscribers on
  the same topic.
\<close>

definition ex_heap1 :: heap where
  "ex_heap1 = [ex_sub ''orders'' [tContext, tOrderCreated] None]"

definition ex_heap2 :: heap where
  "ex_heap2 = [ex_sub ''orders'' [tContext, tOrderCreated] None, the (newSubscriber ''empty'' ex_empty [])]"

definition ex_heap3 :: heap where
  "ex_heap3 =
     [ex_sub ''alpha'' [tContext, tOrderCreated] None,
      ex_sub ''beta'' [tContext, tOrderCreatedAudit] None,
      the (newSubscriber ''gamma'' (ex_func [tContext, tOrderCreated] None) [internal])]"

definition ex_heap_tie :: heap where
  "ex_heap_tie =
     [ex_sub ''orders'' [tContext, tOrderCreated] None,
      ex_sub ''orders'' [tContext, tOrderCreatedAudit] None]"

text \<open>
  Collaborators: a codec that decodes every body, a codec that fails on the bodies of one
  request type, options with the first codec and a health check that succeeds, the option
  that makes the health check fail, a directory and a bus that accept every call, the record
  \<^verbatim>\<open>NewRegisterService\<close> returns, and an event with a content type.
\<close>

definition ex_codec :: Codec where
  "ex_codec = \<lparr>ReadHeader = (\<lambda>buf. Inr buf), ReadBody = (\<lambda>buf t. Inr (Payload t buf))\<rparr>"

definition ex_failing_codec :: "rtype \<Rightarrow> Codec" where
  "ex_failing_codec bad =
     \<lparr>ReadHeader = (\<lambda>buf. Inr buf),
      ReadBody = (\<lambda>buf t. if t = bad then Inl ''cannot decode body'' else Inr (Payload t buf))\<rparr>"

definition ex_options :: Options where
  "ex_options =
     \<lparr>opt_Codecs = [''application/json'' \<mapsto> ex_codec], opt_SubWrappers = [],
      opt_Context = Some Background, opt_RegisterCheck = (\<lambda>c. None)\<rparr>"

definition unhealthy :: "Options \<Rightarrow> Options" where
  "unhealthy options = options\<lparr>opt_RegisterCheck := (\<lambda>c. Some ''database unreachable'')\<rparr>"

definition ex_service :: Service where
  "ex_service = \<lparr>Nodes = [\<lparr>Id = ''tcp-1'', node_Metadata = Map.empty\<rparr>], Endpoints = []\<rparr>"

definition ex_env :: env where
  "ex_env =
     \<lparr>NewRegisterService = (\<lambda>h. Inr ex_service),
      DefaultRegisterFunc = (\<lambda>svc cfg. None),
      DefaultDeregisterFunc = (\<lambda>svc cfg. None),
      Broker_Subscribe = (\<lambda>c t h os. Inr \<lparr>bs_Topic = t, bs_id = 0\<rparr>)\<rparr>"

definition ex_event :: "string \<Rightarrow> Event" where
  "ex_event ct = \<lparr>Message = \<lparr>Header = [''Content-Type'' \<mapsto> ct, ''Trace'' \<mapsto> ''7''], Body = [1, 2, 3]\<rparr>\<rparr>"

text \<open>
  States of the server: new (\<open>ex_s0\<close>), with its handler (\<open>ex_s1\<close>), with the subscriber of
  \<open>ex_heap1\<close> (\<open>ex_s2\<close>), registered (\<open>ex_s3\<close>, advertising \<open>ex_svc\<close>), deregistered (\<open>ex_s4\<close>); the
  last two with a failing health check (\<open>ex_s3u\<close>, \<open>ex_s4u\<close>); the registered server with the
  failing codec (\<open>ex_strict\<close>); and servers with three and two subscribers in the registry.
\<close>

definition ex_handler :: tcpHandler where
  "ex_handler =
     \<lparr>eps = [\<lparr>Name = ''Greeter.Hello'', Request = None, Metadata = Map.empty\<rparr>],
      th_hd = ex_empty,
      th_opts = \<lparr>hdl_Internal = False, hdl_Metadata = [''Greeter.Hello'' \<mapsto> Map.empty]\<rparr>,
      maxMsgSize = 0\<rparr>"

definition ex_s0 :: tcpServer where
  "ex_s0 = NewServer ex_options"

definition ex_s1 :: tcpServer where
  "ex_s1 = Handle ex_s0 ex_handler"

definition ex_s2 :: tcpServer where
  "ex_s2 = ex_s1\<lparr>subscribers := [0 \<mapsto> []]\<rparr>"

definition ex_svc :: Service where
  "ex_svc = advertised ex_heap1 [0] (eps ex_handler) \<lparr>Id = ''tcp-1'', node_Metadata = Map.empty\<rparr> [] ex_service"

definition ex_s3 :: tcpServer where
  "ex_s3 = ex_s2\<lparr>subscribers := [0 \<mapsto> [\<lparr>bs_Topic = ''orders'', bs_id = 0\<rparr>]], registered := True, rsvc := Some ex_svc\<rparr>"

definition ex_s4 :: tcpServer where
  "ex_s4 = ex_s3\<lparr>registered := False, subscribers := [0 \<mapsto> []]\<rparr>"

definition ex_s3u :: tcpServer where
  "ex_s3u = Init ex_s3 [unhealthy]"

definition ex_s4u :: tcpServer where
  "ex_s4u = Init ex_s4 [unhealthy]"

definition ex_strict :: "rtype \<Rightarrow> tcpServer" where
  "ex_strict bad = Init ex_s3 [\<lambda>options. options\<lparr>opt_Codecs := [''application/json'' \<mapsto> ex_failing_codec bad]\<rparr>]"

definition ex_t3 :: tcpServer where
  "ex_t3 = ex_s1\<lparr>subscribers := [0 \<mapsto> [], 1 \<mapsto> [], 2 \<mapsto> []]\<rparr>"

definition ex_t2 :: tcpServer where
  "ex_t2 = ex_s1\<lparr>subscribers := [0 \<mapsto> [], 1 \<mapsto> []]\<rparr>"

text \<open>
  A run in which the bus is down for one topic: two subscribers on the topics \<^verbatim>\<open>alpha\<close>
  and \<^verbatim>\<open>beta\<close>; \<open>ex_bus n down\<close> is a directory that accepts every call with a bus that
  refuses the topics \<open>down\<close> and gives the bindings it creates the number \<open>n\<close>;
  \<open>ex_sub_call r tpc\<close> is the call of \<^verbatim>\<open>Broker.Subscribe\<close> that \<^verbatim>\<open>Register\<close> makes for the
  subscriber at \<open>r\<close>. The states: after a \<^verbatim>\<open>Register\<close> that failed on \<^verbatim>\<open>beta\<close> (\<open>ex_p1\<close>),
  after the next \<^verbatim>\<open>Register\<close> (\<open>ex_p2\<close>), after \<^verbatim>\<open>Deregister\<close> (\<open>ex_p3\<close>).
\<close>

definition ex_heap_pair :: heap where
  "ex_heap_pair =
     [ex_sub ''alpha'' [tContext, tOrderCreated] None,
      ex_sub ''beta'' [tContext, tOrderCreatedAudit] None]"

definition ex_bus :: "nat \<Rightarrow> string list \<Rightarrow> env" where
  "ex_bus n down =
     \<lparr>NewRegisterService = (\<lambda>h. Inr ex_service),
      DefaultRegisterFunc = (\<lambda>svc cfg. None),
      DefaultDeregisterFunc = (\<lambda>svc cfg. None),
      Broker_Subscribe = (\<lambda>c t h os. if t \<in> set down then Inl ''bus unavailable''
                                      else Inr \<lparr>bs_Topic = t, bs_id = n\<rparr>)\<rparr>"

definition ex_sub_call :: "ref \<Rightarrow> string \<Rightarrow> effect" where
  "ex_sub_call r tpc =
     Call_Broker_Subscribe (Some Background) tpc (SubHandler r ex_options)
       [SubscribeContext (Some Background), SubscribeAutoAck True]"

definition ex_svc_pair :: Service where
  "ex_svc_pair = advertised ex_heap_pair [0, 1] (eps ex_handler) \<lparr>Id = ''tcp-1'', node_Metadata = Map.empty\<rparr> [] ex_service"

definition ex_p1 :: tcpServer where
  "ex_p1 = ex_t2\<lparr>subscribers := [0 \<mapsto> [\<lparr>bs_Topic = ''alpha'', bs_id = 1\<rparr>], 1 \<mapsto> []]\<rparr>"

definition ex_p2 :: tcpServer where
  "ex_p2 = ex_t2\<lparr>subscribers := [0 \<mapsto> [\<lparr>bs_Topic = ''alpha'', bs_id = 2\<rparr>],
                                   1 \<mapsto> [\<lparr>bs_Topic = ''beta'', bs_id = 2\<rparr>]],
                 registered := True, rsvc := Some ex_svc_pair\<rparr>"

definition ex_p3 :: tcpServer where
  "ex_p3 = ex_p2\<lparr>registered := False, subscribers := [0 \<mapsto> [], 1 \<mapsto> []]\<rparr>"






section \<open>Properties\<close>

subsection \<open>Evaluation of the concrete inputs\<close>

lemma isExported_ASCII:
  "(of_char c :: int) < 0x80 \<Longrightarrow> isExported (c # cs) = (0x41 \<le> (of_char c :: int) \<and> (of_char c :: int) \<le> 0x5A)"
  by (auto simp: isExported_def DecodeRuneInString_def IsUpper_def MaxLatin1_def Let_def)

lemma types_differ: "tOrderCreated \<noteq> tOrderCreatedAudit"
  by (simp add: tOrderCreated_def tOrderCreatedAudit_def)

lemma ex_sub_eq:
  "ex_sub tpc ins r =
     \<lparr>topic = tpc, sub_typ = tFunc ins [typeOfError], subscriber = ex_func ins r,
      handlers = [func_handler (ex_func ins r) (tFunc ins [typeOfError])],
      endpoints = [sub_Endpoint ''Func'' ins tpc],
      sub_opts = \<lparr>sub_AutoAck = True, sub_Queue = [], sub_Internal = False, sub_Context = None\<rparr>\<rparr>"
  by (simp add: ex_sub_def newSubscriber_def ex_func_def tFunc_def)

lemma handlers_ex_sub:
  "handlers (ex_sub tpc ins r) = [func_handler (ex_func ins r) (tFunc ins [typeOfError])]"
  by (simp add: ex_sub_eq)

lemma validate_ex_sub:
  "validateSubscriber (ex_sub tpc [tContext, tOrderCreated] r) = Success"
  by (simp add: ex_sub_eq validateSubscriber_def ex_func_def tFunc_def validate_func_def NumIn_def NumOut_def
      tOrderCreated_def isExported_ASCII)

lemma validate_ex_sub_audit:
  "validateSubscriber (ex_sub tpc [tContext, tOrderCreatedAudit] r) = Success"
  by (simp add: ex_sub_eq validateSubscriber_def ex_func_def tFunc_def validate_func_def NumIn_def NumOut_def
      tOrderCreatedAudit_def isExported_ASCII)

lemma NewHandler_ex:
  "NewHandler ex_s0 [''Greeter.Hello''] ex_empty \<lparr>hdl_Internal = False, hdl_Metadata = [''Greeter.Hello'' \<mapsto> Map.empty]\<rparr>
     = Some ex_handler"
  by (simp add: NewHandler_def ex_handler_def ex_s0_def NewServer_def ex_options_def Background_def)

lemma Subscribe_ex_s1: "Subscribe ex_heap1 ex_s1 (TcpSubscriber 0) = (Success, ex_s2)"
  by (simp add: Subscribe_def ex_heap1_def validate_ex_sub handlers_ex_sub ex_s2_def ex_s1_def ex_s0_def
      Handle_def NewServer_def)

lemma ex_s2_eq: "ex_s2 = ex_s1\<lparr>subscribers := (subscribers ex_s1)(0 \<mapsto> [])\<rparr>"
  by (simp add: ex_s2_def ex_s1_def ex_s0_def Handle_def NewServer_def)

lemma Subscribe_ex_tie:
  "Subscribe ex_heap_tie ex_s1 (TcpSubscriber 0) = (Success, ex_s2)"
  "Subscribe ex_heap_tie ex_s2 (TcpSubscriber 1) = (Success, ex_t2)"
  by (simp_all add: Subscribe_def ex_heap_tie_def validate_ex_sub validate_ex_sub_audit handlers_ex_sub
      ex_t2_def ex_s2_def ex_s1_def ex_s0_def Handle_def NewServer_def fun_upd_twist)

lemma Register_ex_s2:
  "Register ex_env [0] [0] ex_heap1 ex_s2
     = (Success, ex_s3,
        [Call_DefaultRegisterFunc ex_svc,
         Call_Broker_Subscribe (Some Background) ''orders'' (SubHandler 0 ex_options)
           [SubscribeContext (Some Background), SubscribeAutoAck True]])"
  by (simp add: Register_def ex_s3_def ex_s2_def ex_s1_def ex_s0_def Handle_def NewServer_def ex_env_def
      ex_service_def ex_svc_def tcpHandler_Endpoints_def Let_def ex_heap1_def ex_sub_eq ex_options_def)

lemma Deregister_ex_s3:
  "Deregister ex_env [0] ex_heap1 ex_s3
     = (Success, ex_s4,
        [Call_DefaultDeregisterFunc ex_service, Call_Unsubscribe \<lparr>bs_Topic = ''orders'', bs_id = 0\<rparr>])"
  by (simp add: Deregister_def ex_s4_def ex_s3_def ex_s2_def ex_s1_def ex_s0_def Handle_def NewServer_def
      ex_env_def Let_def)

lemma Register_ex_s4:
  "Register ex_env [0] [0] ex_heap1 ex_s4 = (Success, ex_s4, [Call_DefaultRegisterFunc ex_svc])"
  by (simp add: Register_def ex_s4_def ex_s3_def ex_s2_def ex_s1_def ex_s0_def Handle_def NewServer_def
      ex_env_def Let_def)

subsection \<open>What the operations do to the state\<close>

lemma Subscribe_cases:
  "Subscribe hp h sb = (res, h') \<Longrightarrow>
     (res \<noteq> Success \<and> h' = h) \<or>
     (\<exists>r. sb = TcpSubscriber r \<and> r < length hp \<and> handlers (hp ! r) \<noteq> []
          \<and> validateSubscriber (hp ! r) = Success \<and> subscribers h r = None
          \<and> res = Success \<and> h' = h\<lparr>subscribers := (subscribers h)(r \<mapsto> [])\<rparr>)"
  by (auto simp: Subscribe_def Let_def split: server_Subscriber.splits if_splits result.splits option.splits)

lemma subscribe_loop_map:
  "subscribe_loop e hp config ks m = (res, m', tr) \<Longrightarrow>
     m' r = m r \<or> ((\<exists>b. m' r = Some [b]) \<and> r \<in> set ks)"
proof (induction ks arbitrary: m res m' tr)
  case Nil
  then show ?case by simp
next
  case (Cons k ks)
  show ?case
  proof (cases "Broker_Subscribe e
            (case sub_Context (sub_opts (hp ! k)) of Some cx \<Rightarrow> Some cx | None \<Rightarrow> opt_Context config)
            (topic (hp ! k)) (SubHandler k config)
            ((if length (sub_Queue (sub_opts (hp ! k))) > 0 then [SubscribeGroup (sub_Queue (sub_opts (hp ! k)))] else [])
              @ [SubscribeContext (case sub_Context (sub_opts (hp ! k)) of Some cx \<Rightarrow> Some cx | None \<Rightarrow> opt_Context config),
                 SubscribeAutoAck (sub_AutoAck (sub_opts (hp ! k)))])")
    case (Inl err)
    with Cons.prems show ?thesis by (simp add: Let_def)
  next
    case (Inr sub)
    obtain r1 m1 tr1 where rec: "subscribe_loop e hp config ks (m(k \<mapsto> [sub])) = (r1, m1, tr1)"
      by (cases "subscribe_loop e hp config ks (m(k \<mapsto> [sub]))") auto
    with Cons.prems Inr have "m' = m1" by (simp add: Let_def)
    moreover from Cons.IH [OF rec]
    have "m1 r = (m(k \<mapsto> [sub])) r \<or> ((\<exists>b. m1 r = Some [b]) \<and> r \<in> set ks)" .
    ultimately show ?thesis by (auto split: if_splits)
  qed
qed

lemma fold_unbind:
  "fold (\<lambda>sb m. m(sb \<mapsto> [])) ks m r = (if r \<in> set ks then Some [] else m r)"
  by (induction ks arbitrary: m) auto

lemma Register_cases:
  assumes "Register e ks1 ks2 hp h = (res, h', tr)"
  shows "h' = h \<or>
     (rsvc h = None \<and> \<not> registered h \<and> hd h \<noteq> None \<and>
      (\<exists>m. (\<forall>r. m r = subscribers h r \<or> ((\<exists>b. m r = Some [b]) \<and> r \<in> set ks2)) \<and>
           (h' = h\<lparr>subscribers := m\<rparr> \<or> (\<exists>svc. h' = h\<lparr>subscribers := m, registered := True, rsvc := Some svc\<rparr>))))"
proof (cases "h' = h")
  case True
  then show ?thesis by simp
next
  case False
  with assms obtain th service0 n0 ns where
    hd: "hd h = Some th" and rs: "rsvc h = None" and
    nrs: "NewRegisterService e h = Inr service0" and nodes: "Nodes service0 = n0 # ns"
    and ok: "DefaultRegisterFunc e (advertised hp ks1 (tcpHandler_Endpoints th) n0 ns service0) (opts h) = None"
    and nr: "\<not> registered h"
    by (auto simp: Register_def Let_def split: option.splits sum.splits list.splits if_splits prod.splits)
  obtain r1 m1 tr1 where loop: "subscribe_loop e hp (opts h) ks2 (subscribers h) = (r1, m1, tr1)"
    by (cases "subscribe_loop e hp (opts h) ks2 (subscribers h)") auto
  have m: "\<forall>r. m1 r = subscribers h r \<or> ((\<exists>b. m1 r = Some [b]) \<and> r \<in> set ks2)"
    using subscribe_loop_map [OF loop] by blast
  from assms hd rs nrs nodes ok nr loop
  have "h' = h\<lparr>subscribers := m1\<rparr> \<or>
        h' = h\<lparr>subscribers := m1, registered := True,
               rsvc := Some (advertised hp ks1 (tcpHandler_Endpoints th) n0 ns service0)\<rparr>"
    by (auto simp: Register_def Let_def split: option.splits)
  with hd rs nr m show ?thesis by blast
qed

lemma Register_subscribers:
  assumes "Register e ks1 ks2 hp h = (res, h', tr)"
  shows "subscribers h' r = subscribers h r \<or> ((\<exists>b. subscribers h' r = Some [b]) \<and> r \<in> set ks2)"
  using Register_cases [OF assms] by auto

lemma Deregister_cases:
  assumes "Deregister e ks hp h = (res, h', tr)"
  shows "h' = h \<or> h' = h\<lparr>registered := False, subscribers := (\<lambda>r. if r \<in> set ks then Some [] else subscribers h r)\<rparr>"
  using assms
  by (auto simp: Deregister_def Let_def fold_unbind [abs_def] split: sum.splits option.splits if_splits)

lemma registry_inv_NewServer: "registry_inv hp (NewServer options)"
  by (simp add: registry_inv_def NewServer_def)

lemma registry_inv_step:
  assumes "step hp s s'" and "registry_inv hp s"
  shows "registry_inv hp s'"
  using assms
proof (induction rule: step.induct)
  case (step_Init s os)
  then show ?case by (simp add: registry_inv_def Init_def)
next
  case (step_Handle s th)
  then show ?case by (simp add: registry_inv_def Handle_def)
next
  case (step_Subscribe s sb r s')
  from Subscribe_cases [OF step_Subscribe.hyps] step_Subscribe.prems
  show ?case by (auto simp: registry_inv_def split: if_splits)
next
  case (step_Register ks1 s ks2 e r s' tr)
  from Register_cases [OF step_Register.hyps(3)]
  show ?case
  proof
    assume "s' = s"
    with step_Register.prems show ?thesis by simp
  next
    assume "rsvc s = None \<and> \<not> registered s \<and> hd s \<noteq> None \<and>
      (\<exists>m. (\<forall>r. m r = subscribers s r \<or> ((\<exists>b. m r = Some [b]) \<and> r \<in> set ks2)) \<and>
           (s' = s\<lparr>subscribers := m\<rparr> \<or> (\<exists>svc. s' = s\<lparr>subscribers := m, registered := True, rsvc := Some svc\<rparr>)))"
    then obtain m where hd: "hd s \<noteq> None" and nr: "\<not> registered s"
      and m: "\<And>r. m r = subscribers s r \<or> ((\<exists>b. m r = Some [b]) \<and> r \<in> set ks2)"
      and s': "s' = s\<lparr>subscribers := m\<rparr> \<or> (\<exists>svc. s' = s\<lparr>subscribers := m, registered := True, rsvc := Some svc\<rparr>)"
      by blast
    have keys: "\<And>r. r \<in> set ks2 \<Longrightarrow> r < length hp"
      using step_Register.hyps(2) step_Register.prems by (auto simp: range_order_def registry_inv_def)
    have "\<forall>r subs. m r = Some subs \<longrightarrow> length subs \<le> 1 \<and> r < length hp"
    proof (intro allI impI)
      fix r subs assume mr: "m r = Some subs"
      from m [of r] show "length subs \<le> 1 \<and> r < length hp"
      proof
        assume "m r = subscribers s r"
        with mr have "subscribers s r = Some subs" by simp
        with step_Register.prems show ?thesis unfolding registry_inv_def by blast
      next
        assume "(\<exists>b. m r = Some [b]) \<and> r \<in> set ks2"
        with mr keys [of r] show ?thesis by auto
      qed
    qed
    with s' hd nr show ?thesis by (auto simp: registry_inv_def)
  qed
next
  case (step_Deregister ks s e r s' tr)
  have keys: "\<And>r. r \<in> set ks \<Longrightarrow> r < length hp"
    using step_Deregister.hyps(1) step_Deregister.prems by (auto simp: range_order_def registry_inv_def)
  from Deregister_cases [OF step_Deregister.hyps(2)] step_Deregister.prems keys
  show ?case by (auto simp: registry_inv_def split: if_splits)
qed

lemma registry_inv_steps: "rtranclp (step hp) s s' \<Longrightarrow> registry_inv hp s \<Longrightarrow> registry_inv hp s'"
  by (induction rule: rtranclp_induct) (auto intro: registry_inv_step)

lemma reachable_inv: "reachable hp s \<Longrightarrow> registry_inv hp s"
  unfolding reachable_def using registry_inv_steps registry_inv_NewServer by blast

lemma allocated_newSubscriber:
  "allocated hp \<Longrightarrow> r < length hp \<Longrightarrow> \<exists>tpc sub os. newSubscriber tpc sub os = Some (hp ! r)"
proof (induction arbitrary: r rule: allocated.induct)
  case alloc_empty
  then show ?case by simp
next
  case (alloc_new hp tpc sub os r' hp')
  from alloc_new.hyps(2) obtain obj where obj: "newSubscriber tpc sub os = Some obj" and hp': "hp' = hp @ [obj]"
    by (auto simp: NewSubscriber_def split: option.splits)
  show ?case
  proof (cases "r < length hp")
    case True
    with alloc_new.IH [of r] hp' show ?thesis by (simp add: nth_append)
  next
    case False
    with alloc_new.prems hp' have "hp' ! r = obj" by (simp add: nth_append)
    with obj show ?thesis by metis
  qed
qed

lemma step_keeps_key:
  assumes "step hp s s'" and "subscribers s r \<noteq> None"
  shows "subscribers s' r \<noteq> None"
  using assms
proof (induction rule: step.induct)
  case (step_Init s os)
  then show ?case by (simp add: Init_def)
next
  case (step_Handle s th)
  then show ?case by (simp add: Handle_def)
next
  case (step_Subscribe s sb res s')
  from Subscribe_cases [OF step_Subscribe.hyps] step_Subscribe.prems
  show ?case by auto
next
  case (step_Register ks1 s ks2 e res s' tr)
  from Register_subscribers [OF step_Register.hyps(3), of r] step_Register.prems
  show ?case by auto
next
  case (step_Deregister ks s e res s' tr)
  from Deregister_cases [OF step_Deregister.hyps(2)] step_Deregister.prems
  show ?case by auto
qed

lemma steps_keep_key:
  "rtranclp (step hp) s s' \<Longrightarrow> subscribers s r \<noteq> None \<Longrightarrow> subscribers s' r \<noteq> None"
  by (induction rule: rtranclp_induct) (auto dest: step_keeps_key)

lemma Subscribe_existing:
  assumes "r < length hp" "handlers (hp ! r) \<noteq> []" "validateSubscriber (hp ! r) = Success"
    and "subscribers s r \<noteq> None"
  shows "Subscribe hp s (TcpSubscriber r) = (Failure ''subscriber tcp already exists'', s)"
  using assms by (auto simp: Subscribe_def server_String_def)

lemma reachable_ex_s3: "reachable ex_heap1 ex_s3"
proof -
  have r: "range_order [0] (subscribers ex_s2)"
    by (simp add: range_order_def ex_s2_def)
  have "step ex_heap1 ex_s0 ex_s1"
    unfolding ex_s1_def by (rule step_Handle)
  moreover have "step ex_heap1 ex_s1 ex_s2"
    by (rule step_Subscribe [OF Subscribe_ex_s1])
  moreover have "step ex_heap1 ex_s2 ex_s3"
    by (rule step_Register [OF r r Register_ex_s2])
  ultimately have "rtranclp (step ex_heap1) ex_s0 ex_s3"
    by (meson rtranclp.rtrancl_into_rtrancl rtranclp.rtrancl_refl)
  then show ?thesis unfolding reachable_def ex_s0_def by blast
qed

lemma allocated_ex_heap2: "allocated ex_heap2"
proof -
  have 1: "NewSubscriber [] ''orders'' (ex_func [tContext, tOrderCreated] None) []
      = Some (0, [ex_sub ''orders'' [tContext, tOrderCreated] None])"
    by (simp add: NewSubscriber_def ex_sub_def newSubscriber_def ex_func_def tFunc_def)
  have 2: "NewSubscriber [ex_sub ''orders'' [tContext, tOrderCreated] None] ''empty'' ex_empty []
      = Some (1, ex_heap2)"
    by (simp add: NewSubscriber_def ex_heap2_def newSubscriber_def ex_empty_def tEmpty_def nil_pointer_def)
  from alloc_new [OF alloc_new [OF alloc_empty 1] 2] show ?thesis .
qed

subsection \<open>Register and Deregister\<close>

text \<open>
  C2 claims that every \<^verbatim>\<open>Register\<close> call that returns without error leaves \<^verbatim>\<open>registered\<close>
  true, and that after a \<^verbatim>\<open>Deregister\<close> the next successful \<^verbatim>\<open>Register\<close> sets the flag again
  and re-arms the subscriptions. The code, run on a server with one subscriber: the first
  \<^verbatim>\<open>Register\<close> advertises, arms the subscriber and sets the flag; \<^verbatim>\<open>Deregister\<close> withdraws,
  unsubscribes and clears the flag, but keeps the cached record \<^verbatim>\<open>rsvc\<close>; the next
  \<^verbatim>\<open>Register\<close> finds the cached record, re-advertises it and returns \<^verbatim>\<open>nil\<close>: no call to the
  bus, the flag still false, the subscriber still without binding.
\<close>

theorem Register_after_Deregister_does_not_rearm:
  "Register ex_env [0] [0] ex_heap1 ex_s2
     = (Success, ex_s3,
        [Call_DefaultRegisterFunc ex_svc,
         Call_Broker_Subscribe (Some Background) ''orders'' (SubHandler 0 ex_options)
           [SubscribeContext (Some Background), SubscribeAutoAck True]])
   \<and> registered ex_s3
   \<and> Deregister ex_env [0] ex_heap1 ex_s3
     = (Success, ex_s4,
        [Call_DefaultDeregisterFunc ex_service, Call_Unsubscribe \<lparr>bs_Topic = ''orders'', bs_id = 0\<rparr>])
   \<and> Register ex_env [0] [0] ex_heap1 ex_s4 = (Success, ex_s4, [Call_DefaultRegisterFunc ex_svc])
   \<and> \<not> registered ex_s4
   \<and> subscribers ex_s4 0 = Some []"
  by (simp add: Register_ex_s2 Deregister_ex_s3 Register_ex_s4) (simp add: ex_s4_def ex_s3_def)

text \<open>
  On a registered server \<^verbatim>\<open>Register\<close> does nothing but call the directory with the cached
  record: the state is unchanged (no endpoint list is rebuilt, no binding added) and the only
  effect is that one call, whose error, if any, is returned.
\<close>

lemma Register_registered:
  assumes "reachable hp s" and "registered s"
  shows "\<exists>cached. rsvc s = Some cached
            \<and> Register e ks1 ks2 hp s
                = (case DefaultRegisterFunc e cached (opts s) of None \<Rightarrow> Success | Some err \<Rightarrow> Failure err,
                   s, [Call_DefaultRegisterFunc cached])"
proof -
  from assms(1) have "registry_inv hp s" by (rule reachable_inv)
  with assms(2) obtain cached th where "rsvc s = Some cached" and "hd s = Some th"
    unfolding registry_inv_def by auto
  then show ?thesis
    by (simp add: Register_def Let_def split: option.splits)
qed

lemma Subscribe_ex_pair:
  "Subscribe ex_heap_pair ex_s1 (TcpSubscriber 0) = (Success, ex_s2)"
  "Subscribe ex_heap_pair ex_s2 (TcpSubscriber 1) = (Success, ex_t2)"
  by (simp_all add: Subscribe_def ex_heap_pair_def validate_ex_sub validate_ex_sub_audit handlers_ex_sub
      ex_t2_def ex_s2_def ex_s1_def ex_s0_def Handle_def NewServer_def fun_upd_twist)

lemma range_ex_pair:
  "range_order [0, 1] (subscribers ex_t2)" "range_order [0, 1] (subscribers ex_p1)"
  "range_order [0, 1] (subscribers ex_p2)"
  by (auto simp: range_order_def ex_t2_def ex_p1_def ex_p2_def)

lemma Register_ex_t2_bus_down:
  "Register (ex_bus 1 [''beta'']) [0, 1] [0, 1] ex_heap_pair ex_t2
     = (Failure ''bus unavailable'', ex_p1,
        [Call_DefaultRegisterFunc ex_svc_pair, ex_sub_call 0 ''alpha'', ex_sub_call 1 ''beta''])"
  by (simp add: Register_def ex_p1_def ex_t2_def ex_s1_def ex_s0_def Handle_def NewServer_def ex_bus_def
      ex_service_def ex_svc_pair_def tcpHandler_Endpoints_def Let_def ex_heap_pair_def ex_sub_eq ex_options_def
      ex_sub_call_def fun_upd_twist)

lemma Register_ex_p1:
  "Register (ex_bus 2 []) [0, 1] [0, 1] ex_heap_pair ex_p1
     = (Success, ex_p2,
        [Call_DefaultRegisterFunc ex_svc_pair, ex_sub_call 0 ''alpha'', ex_sub_call 1 ''beta''])"
  by (simp add: Register_def ex_p2_def ex_p1_def ex_t2_def ex_s1_def ex_s0_def Handle_def NewServer_def ex_bus_def
      ex_service_def ex_svc_pair_def tcpHandler_Endpoints_def Let_def ex_heap_pair_def ex_sub_eq ex_options_def
      ex_sub_call_def)

lemma Deregister_ex_p2:
  "Deregister (ex_bus 2 []) [0, 1] ex_heap_pair ex_p2
     = (Success, ex_p3,
        [Call_DefaultDeregisterFunc ex_service,
         Call_Unsubscribe \<lparr>bs_Topic = ''alpha'', bs_id = 2\<rparr>,
         Call_Unsubscribe \<lparr>bs_Topic = ''beta'', bs_id = 2\<rparr>])"
  by (simp add: Deregister_def ex_p3_def ex_p2_def ex_t2_def ex_s1_def ex_s0_def Handle_def NewServer_def
      ex_bus_def Let_def)

lemma reachable_ex_p2: "reachable ex_heap_pair ex_p2"
proof -
  have "step ex_heap_pair ex_s0 ex_s1"
    unfolding ex_s1_def by (rule step_Handle)
  moreover have "step ex_heap_pair ex_s1 ex_s2"
    by (rule step_Subscribe [OF Subscribe_ex_pair(1)])
  moreover have "step ex_heap_pair ex_s2 ex_t2"
    by (rule step_Subscribe [OF Subscribe_ex_pair(2)])
  moreover have "step ex_heap_pair ex_t2 ex_p1"
    by (rule step_Register [OF range_ex_pair(1) range_ex_pair(1) Register_ex_t2_bus_down])
  moreover have "step ex_heap_pair ex_p1 ex_p2"
    by (rule step_Register [OF range_ex_pair(2) range_ex_pair(2) Register_ex_p1])
  ultimately have "rtranclp (step ex_heap_pair) ex_s0 ex_p2"
    by (meson rtranclp.rtrancl_into_rtrancl rtranclp.rtrancl_refl)
  then show ?thesis unfolding reachable_def ex_s0_def by blast
qed

lemma bus_events_ex:
  "bus_events (ex_bus 1 [''beta'']) [Call_DefaultRegisterFunc ex_svc_pair, ex_sub_call 0 ''alpha'', ex_sub_call 1 ''beta'']
     = [Bound \<lparr>bs_Topic = ''alpha'', bs_id = 1\<rparr>]"
  "bus_events (ex_bus 2 []) [Call_DefaultRegisterFunc ex_svc_pair, ex_sub_call 0 ''alpha'', ex_sub_call 1 ''beta'']
     = [Bound \<lparr>bs_Topic = ''alpha'', bs_id = 2\<rparr>, Bound \<lparr>bs_Topic = ''beta'', bs_id = 2\<rparr>]"
  by (simp_all add: ex_sub_call_def ex_bus_def)

text \<open>
  C3 claims that \<^verbatim>\<open>Register\<close> on a registered server only re-advertises the cached record,
  so that no subscription ever holds duplicate bus bindings. The first part holds (lemma
  \<open>Register_registered\<close>); the bindings are doubled on another path. The code, run on a server
  with the subscribers \<^verbatim>\<open>alpha\<close> and \<^verbatim>\<open>beta\<close> while the bus refuses \<^verbatim>\<open>beta\<close>: \<^verbatim>\<open>Register\<close>
  arms \<^verbatim>\<open>alpha\<close> (binding 1), gets the error for \<^verbatim>\<open>beta\<close> and returns it, leaving the binding
  armed and recorded and the server not registered. The next \<^verbatim>\<open>Register\<close>, the bus being up
  again, runs the same loop: it arms \<^verbatim>\<open>alpha\<close> a second time (binding 2), without a call of
  \<^verbatim>\<open>Unsubscribe\<close> on binding 1, and overwrites the entry of the registry. The server is now
  registered, \<^verbatim>\<open>alpha\<close> has two live bindings on the bus, and \<^verbatim>\<open>Deregister\<close> ends only the one
  the registry still holds.
\<close>

theorem Register_retry_binds_subscriber_twice:
  "Subscribe ex_heap_pair ex_s1 (TcpSubscriber 0) = (Success, ex_s2)
   \<and> Subscribe ex_heap_pair ex_s2 (TcpSubscriber 1) = (Success, ex_t2)
   \<and> Register (ex_bus 1 [''beta'']) [0, 1] [0, 1] ex_heap_pair ex_t2
       = (Failure ''bus unavailable'', ex_p1,
          [Call_DefaultRegisterFunc ex_svc_pair, ex_sub_call 0 ''alpha'', ex_sub_call 1 ''beta''])
   \<and> \<not> registered ex_p1 \<and> rsvc ex_p1 = None
   \<and> Register (ex_bus 2 []) [0, 1] [0, 1] ex_heap_pair ex_p1
       = (Success, ex_p2,
          [Call_DefaultRegisterFunc ex_svc_pair, ex_sub_call 0 ''alpha'', ex_sub_call 1 ''beta''])
   \<and> reachable ex_heap_pair ex_p2 \<and> registered ex_p2
   \<and> subscribers ex_p2 0 = Some [\<lparr>bs_Topic = ''alpha'', bs_id = 2\<rparr>]
   \<and> live (bus_events (ex_bus 1 [''beta'']) (snd (snd (Register (ex_bus 1 [''beta'']) [0, 1] [0, 1] ex_heap_pair ex_t2)))
            @ bus_events (ex_bus 2 []) (snd (snd (Register (ex_bus 2 []) [0, 1] [0, 1] ex_heap_pair ex_p1)))) []
       = [\<lparr>bs_Topic = ''alpha'', bs_id = 1\<rparr>, \<lparr>bs_Topic = ''alpha'', bs_id = 2\<rparr>, \<lparr>bs_Topic = ''beta'', bs_id = 2\<rparr>]
   \<and> Deregister (ex_bus 2 []) [0, 1] ex_heap_pair ex_p2
       = (Success, ex_p3,
          [Call_DefaultDeregisterFunc ex_service,
           Call_Unsubscribe \<lparr>bs_Topic = ''alpha'', bs_id = 2\<rparr>,
           Call_Unsubscribe \<lparr>bs_Topic = ''beta'', bs_id = 2\<rparr>])
   \<and> live (bus_events (ex_bus 1 [''beta'']) (snd (snd (Register (ex_bus 1 [''beta'']) [0, 1] [0, 1] ex_heap_pair ex_t2)))
            @ bus_events (ex_bus 2 []) (snd (snd (Register (ex_bus 2 []) [0, 1] [0, 1] ex_heap_pair ex_p1)))
            @ bus_events (ex_bus 2 []) (snd (snd (Deregister (ex_bus 2 []) [0, 1] ex_heap_pair ex_p2)))) []
       = [\<lparr>bs_Topic = ''alpha'', bs_id = 1\<rparr>]"
proof -
  have a: "\<not> registered ex_p1" "rsvc ex_p1 = None" "registered ex_p2"
    "subscribers ex_p2 0 = Some [\<lparr>bs_Topic = ''alpha'', bs_id = 2\<rparr>]"
    by (simp_all add: ex_p1_def ex_p2_def ex_t2_def ex_s1_def ex_s0_def Handle_def NewServer_def)
  show ?thesis
    unfolding Register_ex_t2_bus_down Register_ex_p1 Deregister_ex_p2 snd_conv bus_events_ex
    using a reachable_ex_p2 Subscribe_ex_pair by simp
qed

subsection \<open>The advertised endpoints\<close>

lemma mset_bubble: "mset (bubble lt x pre) = add_mset x (mset pre)"
  by (induction pre) auto

lemma set_bubble: "set (bubble lt x pre) = insert x (set pre)"
  by (simp add: mset_bubble flip: set_mset_mset)

lemma mset_foldl_bubble: "mset (foldl (\<lambda>pre x. bubble lt x pre) acc xs) = mset acc + mset xs"
  by (induction xs arbitrary: acc) (auto simp: mset_bubble)

lemma mset_sort_Slice: "mset (sort_Slice lt xs) = mset xs"
  by (simp add: sort_Slice_def mset_foldl_bubble)

lemma sorted_bubble:
  fixes key :: "'a \<Rightarrow> 'b::linorder"
  shows "sorted_wrt (\<lambda>a b. key a \<le> key b) pre
    \<Longrightarrow> sorted_wrt (\<lambda>a b. key a \<le> key b) (bubble (\<lambda>a b. key a > key b) x pre)"
  by (induction pre) (auto simp: set_bubble)

lemma sorted_foldl_bubble:
  fixes key :: "'a \<Rightarrow> 'b::linorder"
  shows "sorted_wrt (\<lambda>a b. key a \<le> key b) acc
    \<Longrightarrow> sorted_wrt (\<lambda>a b. key a \<le> key b) (foldl (\<lambda>pre x. bubble (\<lambda>a b. key a > key b) x pre) acc xs)"
  by (induction xs arbitrary: acc) (auto simp: sorted_bubble)

lemma sorted_sort_Slice:
  fixes key :: "'a \<Rightarrow> 'b::linorder"
  shows "sorted_wrt (\<lambda>a b. key a \<ge> key b) (sort_Slice (\<lambda>a b. key a > key b) xs)"
  unfolding sort_Slice_def sorted_wrt_rev
  by (rule sorted_foldl_bubble) simp

lemma sorted_desc_unique:
  fixes key :: "'a \<Rightarrow> 'b::linorder"
  assumes "sorted_wrt (\<lambda>a b. key a \<ge> key b) xs" and "sorted_wrt (\<lambda>a b. key a \<ge> key b) ys"
    and "distinct xs" and "distinct ys" and "set xs = set ys" and "inj_on key (set xs)"
  shows "xs = ys"
proof -
  have sx: "sorted (rev (map key xs))" and sy: "sorted (rev (map key ys))"
    using assms(1,2) by (simp_all add: sorted_wrt_rev sorted_wrt_map)
  have dx: "distinct (rev (map key xs))" and dy: "distinct (rev (map key ys))"
    using assms(3-6) by (simp_all add: distinct_map)
  have "set (rev (map key xs)) = set (rev (map key ys))"
    using assms(5) by simp
  with sx sy dx dy have "rev (map key xs) = rev (map key ys)"
    by (intro sorted_distinct_set_unique)
  then have "map key xs = map key ys" by simp
  moreover have "inj_on key (set xs \<union> set ys)" using assms(5,6) by simp
  ultimately show ?thesis by (simp add: inj_on_map_eq_map)
qed

lemma Endpoints_advertised:
  "Endpoints (advertised hp ks es n0 ns service0)
     = es @ concat (map (\<lambda>r. endpoints (hp ! r)) (advertised_subscribers hp ks))"
  by (simp add: advertised_def Let_def)

lemma advertised_cong:
  "advertised_subscribers hp ks = advertised_subscribers hp ks'
    \<Longrightarrow> advertised hp ks es n0 ns service0 = advertised hp ks' es n0 ns service0"
  by (simp add: advertised_def Let_def)

lemma advertised_subscribers_props:
  assumes "range_order ks m"
  shows "distinct (advertised_subscribers hp ks)"
    and "set (advertised_subscribers hp ks) = {r \<in> dom m. \<not> sub_Internal (sub_opts (hp ! r))}"
    and "sorted_wrt (\<lambda>a b. topic (hp ! a) \<ge> topic (hp ! b)) (advertised_subscribers hp ks)"
proof -
  let ?f = "filter (\<lambda>e. \<not> sub_Internal (sub_opts (hp ! e))) ks"
  have m: "mset (advertised_subscribers hp ks) = mset ?f"
    by (simp add: advertised_subscribers_def mset_sort_Slice)
  from assms have "distinct ?f" by (simp add: range_order_def)
  with m show "distinct (advertised_subscribers hp ks)"
    by (metis mset_eq_imp_distinct_iff)
  from m have "set (advertised_subscribers hp ks) = set ?f"
    by (rule mset_eq_setD)
  with assms show "set (advertised_subscribers hp ks) = {r \<in> dom m. \<not> sub_Internal (sub_opts (hp ! r))}"
    by (auto simp: range_order_def)
  show "sorted_wrt (\<lambda>a b. topic (hp ! a) \<ge> topic (hp ! b)) (advertised_subscribers hp ks)"
    unfolding advertised_subscribers_def by (rule sorted_sort_Slice)
qed

lemma advertised_subscribers_unique:
  assumes "range_order ks m" and "range_order ks' m"
    and "inj_on (\<lambda>r. topic (hp ! r)) {r \<in> dom m. \<not> sub_Internal (sub_opts (hp ! r))}"
  shows "advertised_subscribers hp ks = advertised_subscribers hp ks'"
  using advertised_subscribers_props [OF assms(1), of hp] advertised_subscribers_props [OF assms(2), of hp] assms(3)
  by (intro sorted_desc_unique [where key = "\<lambda>r. topic (hp ! r)"]) simp_all

lemma Register_cold_effects:
  assumes "hd h = Some th" and "rsvc h = None" and "NewRegisterService e h = Inr service0"
    and "Nodes service0 = n0 # ns"
  shows "\<exists>tr. snd (snd (Register e ks1 ks2 hp h))
           = Call_DefaultRegisterFunc (advertised hp ks1 (tcpHandler_Endpoints th) n0 ns service0) # tr"
  using assms by (auto simp: Register_def Let_def split: option.splits prod.splits)

lemma NewHandler_Endpoints:
  assumes "NewHandler s ks handler options = Some th"
  shows "tcpHandler_Endpoints th =
     (if hdl_Internal options then []
      else map (\<lambda>name. \<lparr>Name = name, Request = None,
                          Metadata = (case hdl_Metadata options name of Some md \<Rightarrow> md | None \<Rightarrow> Map.empty)\<rparr>) ks)"
  using assms by (auto simp: NewHandler_def tcpHandler_Endpoints_def Let_def split: option.splits)

lemma ex_internal_eq:
  "the (newSubscriber ''gamma'' (ex_func [tContext, tOrderCreated] None) [internal])
    = (ex_sub ''gamma'' [tContext, tOrderCreated] None)
        \<lparr>sub_opts := \<lparr>sub_AutoAck = True, sub_Queue = [], sub_Internal = True, sub_Context = None\<rparr>\<rparr>"
  by (simp add: ex_sub_eq newSubscriber_def ex_func_def tFunc_def internal_def)

lemma Register_ex_tie_01:
  "advertised_records (snd (snd (Register ex_env [0, 1] [0, 1] ex_heap_tie ex_t2)))
     = [advertised ex_heap_tie [0, 1] (eps ex_handler) \<lparr>Id = ''tcp-1'', node_Metadata = Map.empty\<rparr> [] ex_service]"
  by (simp add: Register_def ex_t2_def ex_s1_def ex_s0_def Handle_def NewServer_def ex_env_def
      ex_service_def tcpHandler_Endpoints_def Let_def)

lemma Register_ex_tie_10:
  "advertised_records (snd (snd (Register ex_env [1, 0] [0, 1] ex_heap_tie ex_t2)))
     = [advertised ex_heap_tie [1, 0] (eps ex_handler) \<lparr>Id = ''tcp-1'', node_Metadata = Map.empty\<rparr> [] ex_service]"
  by (simp add: Register_def ex_t2_def ex_s1_def ex_s0_def Handle_def NewServer_def ex_env_def
      ex_service_def tcpHandler_Endpoints_def Let_def)

lemma Requests_tie_01:
  "map Request (Endpoints (advertised ex_heap_tie [0, 1] (eps ex_handler) n0 [] ex_service))
     = [None, Some tOrderCreated, Some tOrderCreatedAudit]"
  by (simp add: advertised_def advertised_subscribers_def Let_def ex_heap_tie_def ex_sub_eq sort_Slice_def ex_handler_def sub_Endpoint_def
      ExtractSubValue_def)

lemma Requests_tie_10:
  "map Request (Endpoints (advertised ex_heap_tie [1, 0] (eps ex_handler) n0 [] ex_service))
     = [None, Some tOrderCreatedAudit, Some tOrderCreated]"
  by (simp add: advertised_def advertised_subscribers_def Let_def ex_heap_tie_def ex_sub_eq sort_Slice_def ex_handler_def sub_Endpoint_def
      ExtractSubValue_def)

lemma range_ex_t3: "range_order [0, 1, 2] (subscribers ex_t3)" "range_order [2, 0, 1] (subscribers ex_t3)"
  by (auto simp: range_order_def ex_t3_def)

lemma topics_ex_heap3:
  "topic (ex_heap3 ! 0) = ''alpha''" "topic (ex_heap3 ! Suc 0) = ''beta''" "topic (ex_heap3 ! 2) = ''gamma''"
  "sub_Internal (sub_opts (ex_heap3 ! 0)) = False" "sub_Internal (sub_opts (ex_heap3 ! Suc 0)) = False"
  "sub_Internal (sub_opts (ex_heap3 ! 2)) = True"
  by (simp_all add: ex_heap3_def ex_sub_eq ex_internal_eq)

lemma advertised_subscribers_ex3:
  "advertised_subscribers ex_heap3 [0, 1, 2] = [1, 0]"
  by (simp add: advertised_subscribers_def topics_ex_heap3 sort_Slice_def less_char_def)

lemma Endpoints_ex3:
  "map (\<lambda>ep. (Name ep, Metadata ep ''topic''))
     (Endpoints (advertised ex_heap3 [0, 1, 2] (tcpHandler_Endpoints ex_handler) n0 [] ex_service))
   = [(''Greeter.Hello'', None), (''Func'', Some ''beta''), (''Func'', Some ''alpha'')]"
proof -
  have "endpoints (ex_heap3 ! 0) = [sub_Endpoint ''Func'' [tContext, tOrderCreated] ''alpha'']"
    and "endpoints (ex_heap3 ! 1) = [sub_Endpoint ''Func'' [tContext, tOrderCreatedAudit] ''beta'']"
    by (simp_all add: ex_heap3_def ex_sub_eq)
  then show ?thesis
    unfolding Endpoints_advertised advertised_subscribers_ex3
    by (simp add: tcpHandler_Endpoints_def ex_handler_def sub_Endpoint_def)
qed

text \<open>
  C8, as stated, fails in its last part: the order of the advertised endpoints is not
  determined by the contents of the registry. After two valid subscribers on the same topic
  \<^verbatim>\<open>orders\<close> have been subscribed, the record that \<^verbatim>\<open>Register\<close> shows to the directory
  lists their endpoints in the order in which the range over \<^verbatim>\<open>h.subscribers\<close> met them:
  the comparison of \<^verbatim>\<open>sort.Slice\<close> looks at the topic only.
\<close>

theorem Register_endpoint_order_depends_on_range_order:
  "Subscribe ex_heap_tie ex_s1 (TcpSubscriber 0) = (Success, ex_s2)
   \<and> Subscribe ex_heap_tie ex_s2 (TcpSubscriber 1) = (Success, ex_t2)
   \<and> topic (ex_heap_tie ! 0) = ''orders'' \<and> topic (ex_heap_tie ! 1) = ''orders''
   \<and> range_order [0, 1] (subscribers ex_t2) \<and> range_order [1, 0] (subscribers ex_t2)
   \<and> map (\<lambda>svc. map Request (Endpoints svc))
        (advertised_records (snd (snd (Register ex_env [0, 1] [0, 1] ex_heap_tie ex_t2))))
       = [[None, Some tOrderCreated, Some tOrderCreatedAudit]]
   \<and> map (\<lambda>svc. map Request (Endpoints svc))
        (advertised_records (snd (snd (Register ex_env [1, 0] [0, 1] ex_heap_tie ex_t2))))
       = [[None, Some tOrderCreatedAudit, Some tOrderCreated]]
   \<and> tOrderCreated \<noteq> tOrderCreatedAudit"
proof (intro conjI)
  show "Subscribe ex_heap_tie ex_s1 (TcpSubscriber 0) = (Success, ex_s2)"
    and "Subscribe ex_heap_tie ex_s2 (TcpSubscriber 1) = (Success, ex_t2)"
    by (rule Subscribe_ex_tie)+
  show "topic (ex_heap_tie ! 0) = ''orders''" and "topic (ex_heap_tie ! 1) = ''orders''"
    by (simp_all add: ex_heap_tie_def ex_sub_eq)
  show "range_order [0, 1] (subscribers ex_t2)" and "range_order [1, 0] (subscribers ex_t2)"
    by (auto simp: range_order_def ex_t2_def)
  show "tOrderCreated \<noteq> tOrderCreatedAudit"
    by (rule types_differ)
  show "map (\<lambda>svc. map Request (Endpoints svc))
        (advertised_records (snd (snd (Register ex_env [0, 1] [0, 1] ex_heap_tie ex_t2))))
       = [[None, Some tOrderCreated, Some tOrderCreatedAudit]]"
    by (simp only: Register_ex_tie_01 Requests_tie_01 list.map)
  show "map (\<lambda>svc. map Request (Endpoints svc))
        (advertised_records (snd (snd (Register ex_env [1, 0] [0, 1] ex_heap_tie ex_t2))))
       = [[None, Some tOrderCreatedAudit, Some tOrderCreated]]"
    by (simp only: Register_ex_tie_10 Requests_tie_10 list.map)
qed

text \<open>
  C8, amended: when \<^verbatim>\<open>Register\<close> builds a record (a handler is set, no record is cached, the
  new record has a node), the record it shows to the directory has as endpoints those of the
  handler followed by those of the subscribers of a list \<open>L\<close>, where \<open>L\<close> holds each
  non-internal subscriber of the registry exactly once, in descending order of topic; the
  handler's endpoints are none for an internal handler and one per entry of its metadata
  otherwise. If the non-internal subscribers have pairwise distinct topics, every order of the
  range gives the same record; subscribers that share a topic may come in either order.
\<close>

theorem Register_advertised_endpoints:
  assumes "hd h = Some th" and "rsvc h = None" and "NewRegisterService e h = Inr service0"
    and "Nodes service0 = n0 # ns" and "range_order ks1 (subscribers h)"
  shows "\<exists>svc L tr.
      snd (snd (Register e ks1 ks2 hp h)) = Call_DefaultRegisterFunc svc # tr
    \<and> Endpoints svc = tcpHandler_Endpoints th @ concat (map (\<lambda>r. endpoints (hp ! r)) L)
    \<and> distinct L
    \<and> set L = {r \<in> dom (subscribers h). \<not> sub_Internal (sub_opts (hp ! r))}
    \<and> sorted_wrt (\<lambda>a b. topic (hp ! a) \<ge> topic (hp ! b)) L
    \<and> (\<forall>ks1' ks2'. range_order ks1' (subscribers h) \<and> inj_on (\<lambda>r. topic (hp ! r)) (set L)
          \<longrightarrow> (\<exists>tr'. snd (snd (Register e ks1' ks2' hp h)) = Call_DefaultRegisterFunc svc # tr'))
    \<and> (\<forall>s ks handler options. NewHandler s ks handler options = Some th
          \<longrightarrow> tcpHandler_Endpoints th =
               (if hdl_Internal options then []
                else map (\<lambda>name. \<lparr>Name = name, Request = None,
                     Metadata = (case hdl_Metadata options name of Some md \<Rightarrow> md | None \<Rightarrow> Map.empty)\<rparr>) ks))"
proof -
  let ?svc = "advertised hp ks1 (tcpHandler_Endpoints th) n0 ns service0"
  let ?L = "advertised_subscribers hp ks1"
  note props = advertised_subscribers_props [OF assms(5), of hp]
  from Register_cold_effects [OF assms(1-4)]
  obtain tr where tr: "snd (snd (Register e ks1 ks2 hp h)) = Call_DefaultRegisterFunc ?svc # tr"
    by blast
  have det: "\<exists>tr'. snd (snd (Register e ks1' ks2' hp h)) = Call_DefaultRegisterFunc ?svc # tr'"
    if "range_order ks1' (subscribers h) \<and> inj_on (\<lambda>r. topic (hp ! r)) (set ?L)" for ks1' ks2'
  proof -
    from that props(2) have "advertised_subscribers hp ks1' = ?L"
      by (intro advertised_subscribers_unique [OF _ assms(5)]) simp_all
    then have "advertised hp ks1' (tcpHandler_Endpoints th) n0 ns service0 = ?svc"
      by (rule advertised_cong)
    with Register_cold_effects [OF assms(1-4), of ks1' ks2' hp] show ?thesis by simp
  qed
  have "snd (snd (Register e ks1 ks2 hp h)) = Call_DefaultRegisterFunc ?svc # tr
    \<and> Endpoints ?svc = tcpHandler_Endpoints th @ concat (map (\<lambda>r. endpoints (hp ! r)) ?L)
    \<and> distinct ?L
    \<and> set ?L = {r \<in> dom (subscribers h). \<not> sub_Internal (sub_opts (hp ! r))}
    \<and> sorted_wrt (\<lambda>a b. topic (hp ! a) \<ge> topic (hp ! b)) ?L
    \<and> (\<forall>ks1' ks2'. range_order ks1' (subscribers h) \<and> inj_on (\<lambda>r. topic (hp ! r)) (set ?L)
          \<longrightarrow> (\<exists>tr'. snd (snd (Register e ks1' ks2' hp h)) = Call_DefaultRegisterFunc ?svc # tr'))
    \<and> (\<forall>s ks handler options. NewHandler s ks handler options = Some th
          \<longrightarrow> tcpHandler_Endpoints th =
               (if hdl_Internal options then []
                else map (\<lambda>name. \<lparr>Name = name, Request = None,
                     Metadata = (case hdl_Metadata options name of Some md \<Rightarrow> md | None \<Rightarrow> Map.empty)\<rparr>) ks))"
    using tr props det NewHandler_Endpoints by (intro conjI allI impI Endpoints_advertised) blast+
  then show ?thesis by blast
qed

theorem Register_advertised_endpoints_witness:
  "hd ex_t3 = Some ex_handler \<and> rsvc ex_t3 = None \<and> NewRegisterService ex_env ex_t3 = Inr ex_service
   \<and> Nodes ex_service = [\<lparr>Id = ''tcp-1'', node_Metadata = Map.empty\<rparr>]
   \<and> range_order [0, 1, 2] (subscribers ex_t3) \<and> range_order [2, 0, 1] (subscribers ex_t3)
   \<and> inj_on (\<lambda>r. topic (ex_heap3 ! r)) {0, 1}
   \<and> (\<exists>svc tr tr'.
         snd (snd (Register ex_env [0, 1, 2] [0, 1, 2] ex_heap3 ex_t3)) = Call_DefaultRegisterFunc svc # tr
       \<and> snd (snd (Register ex_env [2, 0, 1] [0, 1, 2] ex_heap3 ex_t3)) = Call_DefaultRegisterFunc svc # tr'
       \<and> map (\<lambda>ep. (Name ep, Metadata ep ''topic'')) (Endpoints svc)
           = [(''Greeter.Hello'', None), (''Func'', Some ''beta''), (''Func'', Some ''alpha'')])"
proof -
  let ?n0 = "\<lparr>Id = ''tcp-1'', node_Metadata = Map.empty\<rparr>"
  have h1: "hd ex_t3 = Some ex_handler" and h2: "rsvc ex_t3 = None"
    by (simp_all add: ex_t3_def ex_s1_def ex_s0_def Handle_def NewServer_def)
  have h3: "NewRegisterService ex_env ex_t3 = Inr ex_service" by (simp add: ex_env_def)
  have h4: "Nodes ex_service = [?n0]" by (simp add: ex_service_def)
  have inj: "inj_on (\<lambda>r. topic (ex_heap3 ! r)) {0, 1}"
    by (simp add: topics_ex_heap3)
  have dom: "{r \<in> dom (subscribers ex_t3). \<not> sub_Internal (sub_opts (ex_heap3 ! r))} = {0, 1}"
    by (auto simp: ex_t3_def topics_ex_heap3 split: if_splits)
  note T = Register_advertised_endpoints [OF h1 h2 h3 h4 range_ex_t3(1), of "[0, 1, 2]" ex_heap3]
  from T obtain svc L tr where
    tr: "snd (snd (Register ex_env [0, 1, 2] [0, 1, 2] ex_heap3 ex_t3)) = Call_DefaultRegisterFunc svc # tr"
    and L: "set L = {r \<in> dom (subscribers ex_t3). \<not> sub_Internal (sub_opts (ex_heap3 ! r))}"
    and det: "\<forall>ks1' ks2'. range_order ks1' (subscribers ex_t3) \<and> inj_on (\<lambda>r. topic (ex_heap3 ! r)) (set L)
          \<longrightarrow> (\<exists>tr'. snd (snd (Register ex_env ks1' ks2' ex_heap3 ex_t3)) = Call_DefaultRegisterFunc svc # tr')"
    by (elim exE conjE) (rule that)
  from L dom have "set L = {0, 1}" by (rule trans)
  with inj have "inj_on (\<lambda>r. topic (ex_heap3 ! r)) (set L)" by (simp only:)
  with range_ex_t3(2) have pre: "range_order [2, 0, 1] (subscribers ex_t3) \<and> inj_on (\<lambda>r. topic (ex_heap3 ! r)) (set L)"
    by (rule conjI)
  have "\<exists>tr'. snd (snd (Register ex_env [2, 0, 1] [0, 1, 2] ex_heap3 ex_t3)) = Call_DefaultRegisterFunc svc # tr'"
    by (rule det [rule_format, OF pre])
  then obtain tr' where tr': "snd (snd (Register ex_env [2, 0, 1] [0, 1, 2] ex_heap3 ex_t3)) = Call_DefaultRegisterFunc svc # tr'"
    by (rule exE)
  from Register_cold_effects [OF h1 h2 h3 h4, of "[0, 1, 2]" "[0, 1, 2]" ex_heap3]
  obtain tr0 where "snd (snd (Register ex_env [0, 1, 2] [0, 1, 2] ex_heap3 ex_t3))
      = Call_DefaultRegisterFunc (advertised ex_heap3 [0, 1, 2] (tcpHandler_Endpoints ex_handler) ?n0 [] ex_service) # tr0"
    by (rule exE)
  with tr have "Call_DefaultRegisterFunc svc # tr
      = Call_DefaultRegisterFunc (advertised ex_heap3 [0, 1, 2] (tcpHandler_Endpoints ex_handler) ?n0 [] ex_service) # tr0"
    by (rule trans [OF sym])
  then have "svc = advertised ex_heap3 [0, 1, 2] (tcpHandler_Endpoints ex_handler) ?n0 [] ex_service"
    by (simp only: list.inject effect.inject)
  then have "map (\<lambda>ep. (Name ep, Metadata ep ''topic'')) (Endpoints svc)
           = [(''Greeter.Hello'', None), (''Func'', Some ''beta''), (''Func'', Some ''alpha'')]"
    by (simp only: Endpoints_ex3)
  with tr tr' have "\<exists>svc tr tr'.
         snd (snd (Register ex_env [0, 1, 2] [0, 1, 2] ex_heap3 ex_t3)) = Call_DefaultRegisterFunc svc # tr
       \<and> snd (snd (Register ex_env [2, 0, 1] [0, 1, 2] ex_heap3 ex_t3)) = Call_DefaultRegisterFunc svc # tr'
       \<and> map (\<lambda>ep. (Name ep, Metadata ep ''topic'')) (Endpoints svc)
           = [(''Greeter.Hello'', None), (''Func'', Some ''beta''), (''Func'', Some ''alpha'')]"
    by (intro exI [of _ svc] exI [of _ tr] exI [of _ tr'] conjI)
  then show ?thesis
    by (intro conjI h1 h2 h3 h4 range_ex_t3 inj)
qed

subsection \<open>The heartbeat\<close>

lemma tick_unhealthy_registered:
  assumes "registered h" and "opt_RegisterCheck (opts h) (opt_Context (opts h)) \<noteq> None"
  shows "\<exists>rd rr. fst (snd (tick e ksd ks1 ks2 hp h)) = [Called_Deregister rd, Called_Register rr]"
  using assms by (auto simp: tick_def Let_def split: prod.splits)

lemma tick_unhealthy_unregistered:
  assumes "\<not> registered h" and "opt_RegisterCheck (opts h) (opt_Context (opts h)) \<noteq> None"
  shows "tick e ksd ks1 ks2 hp h = (h, [], [])"
  using assms by (auto simp: tick_def Let_def)

lemma tick_healthy:
  assumes "opt_RegisterCheck (opts h) (opt_Context (opts h)) = None"
  shows "\<exists>rr. fst (snd (tick e ksd ks1 ks2 hp h)) = [Called_Register rr]"
  using assms by (auto simp: tick_def Let_def split: prod.splits)

lemma Deregister_ex_s3u:
  "Deregister ex_env [0] ex_heap1 ex_s3u
     = (Success, ex_s4u,
        [Call_DefaultDeregisterFunc ex_service, Call_Unsubscribe \<lparr>bs_Topic = ''orders'', bs_id = 0\<rparr>])"
  by (simp add: Deregister_def ex_s3u_def ex_s4u_def Init_def ex_s4_def ex_s3_def ex_s2_def ex_s1_def ex_s0_def
      Handle_def NewServer_def ex_env_def Let_def)

lemma Register_ex_s4u:
  "Register ex_env [0] [0] ex_heap1 ex_s4u = (Success, ex_s4u, [Call_DefaultRegisterFunc ex_svc])"
  by (simp add: Register_def ex_s4u_def Init_def ex_s4_def ex_s3_def ex_s2_def ex_s1_def ex_s0_def Handle_def
      NewServer_def ex_env_def Let_def)

text \<open>
  C5 claims that a pass of the heartbeat whose health check fails while the server is
  registered attempts \<^verbatim>\<open>Deregister\<close> and does not attempt \<^verbatim>\<open>Register\<close>. The code, run on the
  registered server with a failing check: the first branch calls \<^verbatim>\<open>Deregister\<close> and, having no
  \<^verbatim>\<open>continue\<close>, falls through to \<^verbatim>\<open>h.Register()\<close>, which advertises the cached record again.
\<close>

theorem tick_unhealthy_registered_also_registers:
  "registered ex_s3u
   \<and> opt_RegisterCheck (opts ex_s3u) (opt_Context (opts ex_s3u)) = Some ''database unreachable''
   \<and> tick ex_env [0] [0] [0] ex_heap1 ex_s3u
       = (ex_s4u,
          [Called_Deregister Success, Called_Register Success],
          [Call_DefaultDeregisterFunc ex_service, Call_Unsubscribe \<lparr>bs_Topic = ''orders'', bs_id = 0\<rparr>,
           Call_DefaultRegisterFunc ex_svc])"
proof -
  have a: "registered ex_s3u"
    by (simp add: ex_s3u_def Init_def ex_s3_def)
  have b: "opt_RegisterCheck (opts ex_s3u) (opt_Context (opts ex_s3u)) = Some ''database unreachable''"
    by (simp add: ex_s3u_def Init_def unhealthy_def)
  from a b show ?thesis
    by (simp add: tick_def Deregister_ex_s3u Register_ex_s4u)
qed

subsection \<open>Subscribe\<close>

text \<open>
  C9: the first \<^verbatim>\<open>Subscribe\<close> of a valid subscriber object that is not yet in the registry
  succeeds and stores it under its address; in every later state of the run, \<^verbatim>\<open>Subscribe\<close>
  of the same object returns an error and leaves the server, and so the one entry of the
  object, unchanged.
\<close>

theorem Subscribe_same_object_twice:
  assumes "r < length hp" and "handlers (hp ! r) \<noteq> []" and "validateSubscriber (hp ! r) = Success"
    and "subscribers s r = None"
  shows "Subscribe hp s (TcpSubscriber r) = (Success, s\<lparr>subscribers := (subscribers s)(r \<mapsto> [])\<rparr>)
    \<and> (\<forall>s'. rtranclp (step hp) (s\<lparr>subscribers := (subscribers s)(r \<mapsto> [])\<rparr>) s'
          \<longrightarrow> Subscribe hp s' (TcpSubscriber r) = (Failure ''subscriber tcp already exists'', s'))"
proof (intro conjI allI impI)
  show "Subscribe hp s (TcpSubscriber r) = (Success, s\<lparr>subscribers := (subscribers s)(r \<mapsto> [])\<rparr>)"
    using assms by (simp add: Subscribe_def)
next
  fix s'
  assume "rtranclp (step hp) (s\<lparr>subscribers := (subscribers s)(r \<mapsto> [])\<rparr>) s'"
  then have "subscribers s' r \<noteq> None"
    by (rule steps_keep_key) simp
  with assms(1-3) show "Subscribe hp s' (TcpSubscriber r) = (Failure ''subscriber tcp already exists'', s')"
    by (rule Subscribe_existing)
qed

theorem Subscribe_same_object_twice_witness:
  "Subscribe ex_heap1 ex_s1 (TcpSubscriber 0) = (Success, ex_s2)
   \<and> Subscribe ex_heap1 ex_s2 (TcpSubscriber 0) = (Failure ''subscriber tcp already exists'', ex_s2)
   \<and> Subscribe ex_heap1 ex_s3 (TcpSubscriber 0) = (Failure ''subscriber tcp already exists'', ex_s3)"
proof -
  have a: "0 < length ex_heap1" by (simp add: ex_heap1_def)
  have b: "handlers (ex_heap1 ! 0) \<noteq> []" by (simp add: ex_heap1_def handlers_ex_sub)
  have c: "validateSubscriber (ex_heap1 ! 0) = Success" by (simp add: ex_heap1_def validate_ex_sub)
  have d: "subscribers ex_s1 0 = None" by (simp add: ex_s1_def ex_s0_def Handle_def NewServer_def)
  have e: "rtranclp (step ex_heap1) ex_s2 ex_s3"
  proof (rule r_into_rtranclp, rule step_Register [OF _ _ Register_ex_s2])
    show "range_order [0] (subscribers ex_s2)"
      by (simp add: range_order_def ex_s2_def)
    then show "range_order [0] (subscribers ex_s2)" .
  qed
  from Subscribe_same_object_twice [OF a b c d, folded ex_s2_eq] e
  show ?thesis by blast
qed

text \<open>
  C10: \<^verbatim>\<open>Subscribe\<close> returns the type error for every value that is not a \<^verbatim>\<open>*tcpSubscriber\<close>,
  and the no-handler error for every subscriber without handlers, whatever validation would
  say, and the server is unchanged whenever \<^verbatim>\<open>Subscribe\<close> does not succeed; a successful
  \<^verbatim>\<open>Subscribe\<close> was given a \<^verbatim>\<open>*tcpSubscriber\<close> with handlers and adds exactly its address; and
  in a run over a store filled by \<^verbatim>\<open>NewSubscriber\<close>, every key of the registry is an object
  that \<^verbatim>\<open>newSubscriber\<close> returned.
\<close>

theorem Subscribe_only_package_subscribers:
  "Subscribe hp h (OtherSubscriber n) = (Failure ''invalid subscriber: expected *tcpSubscriber'', h)
   \<and> Subscribe hp h NilSubscriber = (Failure ''invalid subscriber: expected *tcpSubscriber'', h)
   \<and> (r < length hp \<and> handlers (hp ! r) = []
        \<longrightarrow> Subscribe hp h (TcpSubscriber r) = (Failure ''invalid subscriber: no handler functions'', h))
   \<and> (fst (Subscribe hp h sb) = Success
        \<longrightarrow> (\<exists>r. sb = TcpSubscriber r \<and> r < length hp \<and> handlers (hp ! r) \<noteq> []
                 \<and> snd (Subscribe hp h sb) = h\<lparr>subscribers := (subscribers h)(r \<mapsto> [])\<rparr>))
   \<and> (fst (Subscribe hp h sb) \<noteq> Success \<longrightarrow> snd (Subscribe hp h sb) = h)
   \<and> (allocated hp \<and> reachable hp s
        \<longrightarrow> (\<forall>r\<in>dom (subscribers s). \<exists>tpc sub os. newSubscriber tpc sub os = Some (hp ! r)))"
proof (intro conjI impI)
  show "Subscribe hp h (OtherSubscriber n) = (Failure ''invalid subscriber: expected *tcpSubscriber'', h)"
    by (simp add: Subscribe_def)
  show "Subscribe hp h NilSubscriber = (Failure ''invalid subscriber: expected *tcpSubscriber'', h)"
    by (simp add: Subscribe_def)
  show "Subscribe hp h (TcpSubscriber r) = (Failure ''invalid subscriber: no handler functions'', h)"
    if "r < length hp \<and> handlers (hp ! r) = []"
    using that by (simp add: Subscribe_def)
  obtain res h' where sub: "Subscribe hp h sb = (res, h')"
    by (cases "Subscribe hp h sb") auto
  show "\<exists>r. sb = TcpSubscriber r \<and> r < length hp \<and> handlers (hp ! r) \<noteq> []
          \<and> snd (Subscribe hp h sb) = h\<lparr>subscribers := (subscribers h)(r \<mapsto> [])\<rparr>"
    if "fst (Subscribe hp h sb) = Success"
    using Subscribe_cases [OF sub] that sub by auto
  show "snd (Subscribe hp h sb) = h" if "fst (Subscribe hp h sb) \<noteq> Success"
    using Subscribe_cases [OF sub] that sub by auto
  show "\<forall>r\<in>dom (subscribers s). \<exists>tpc sub os. newSubscriber tpc sub os = Some (hp ! r)"
    if "allocated hp \<and> reachable hp s"
  proof
    fix r assume "r \<in> dom (subscribers s)"
    with that reachable_inv [of hp s] have "r < length hp" by (auto simp: registry_inv_def)
    with that show "\<exists>tpc sub os. newSubscriber tpc sub os = Some (hp ! r)"
      by (simp add: allocated_newSubscriber)
  qed
qed

theorem Subscribe_only_package_subscribers_witness:
  "Subscribe ex_heap2 ex_s0 (OtherSubscriber 0) = (Failure ''invalid subscriber: expected *tcpSubscriber'', ex_s0)
   \<and> Subscribe ex_heap2 ex_s0 NilSubscriber = (Failure ''invalid subscriber: expected *tcpSubscriber'', ex_s0)
   \<and> 1 < length ex_heap2 \<and> handlers (ex_heap2 ! 1) = []
   \<and> Subscribe ex_heap2 ex_s0 (TcpSubscriber 1) = (Failure ''invalid subscriber: no handler functions'', ex_s0)
   \<and> fst (Subscribe ex_heap2 ex_s0 (TcpSubscriber 0)) = Success
   \<and> snd (Subscribe ex_heap2 ex_s0 (TcpSubscriber 0)) = ex_s0\<lparr>subscribers := (subscribers ex_s0)(0 \<mapsto> [])\<rparr>
   \<and> fst (Subscribe ex_heap2 ex_s0 (OtherSubscriber 0)) \<noteq> Success
   \<and> allocated ex_heap2
   \<and> reachable ex_heap2 (ex_s0\<lparr>subscribers := (subscribers ex_s0)(0 \<mapsto> [])\<rparr>)
   \<and> (\<exists>tpc sub os. newSubscriber tpc sub os = Some (ex_heap2 ! 0))"
proof -
  let ?s = "ex_s0\<lparr>subscribers := (subscribers ex_s0)(0 \<mapsto> [])\<rparr>"
  have a: "1 < length ex_heap2 \<and> handlers (ex_heap2 ! 1) = []"
    by (simp add: ex_heap2_def newSubscriber_def ex_empty_def tEmpty_def NumMethod_def nil_pointer_def)
  have b: "Subscribe ex_heap2 ex_s0 (TcpSubscriber 0) = (Success, ?s)"
    by (simp add: Subscribe_def ex_heap2_def validate_ex_sub handlers_ex_sub ex_s0_def NewServer_def)
  have c: "reachable ex_heap2 ?s"
    unfolding reachable_def ex_s0_def
    using step_Subscribe [OF b [unfolded ex_s0_def]] by blast
  have d: "0 \<in> dom (subscribers ?s)" by simp
  have e: "fst (Subscribe ex_heap2 ex_s0 (OtherSubscriber 0)) \<noteq> Success"
    by (simp add: Subscribe_def)
  note t = Subscribe_only_package_subscribers [of ex_heap2 ex_s0 0 1 "TcpSubscriber 0" ?s]
  from t have t1: "Subscribe ex_heap2 ex_s0 (OtherSubscriber 0) = (Failure ''invalid subscriber: expected *tcpSubscriber'', ex_s0)"
    and t2: "Subscribe ex_heap2 ex_s0 NilSubscriber = (Failure ''invalid subscriber: expected *tcpSubscriber'', ex_s0)"
    by blast+
  from t a have t3: "Subscribe ex_heap2 ex_s0 (TcpSubscriber 1) = (Failure ''invalid subscriber: no handler functions'', ex_s0)"
    by blast
  from t allocated_ex_heap2 c d have t4: "\<exists>tpc sub os. newSubscriber tpc sub os = Some (ex_heap2 ! 0)"
    by blast
  from t1 t2 a t3 b e allocated_ex_heap2 c t4 show ?thesis
    by simp
qed

subsection \<open>Validation of handler shapes\<close>


















subsection \<open>The subscription dispatcher\<close>


lemma launch_abort:
  assumes "list_all2 (\<lambda>h req. decode cf msg h = Inr req) hs1 reqs" and "decode cf msg h = Inl res"
  shows "launch sb os cf ct msg ctx i (hs1 @ h # hs2)
     = (res, map (\<lambda>j. Invoked (i + j) (sent sb os cf ct msg ctx (hs1 ! j) (reqs ! j))) [0..<length hs1])"
  using assms
proof (induction arbitrary: i rule: list_all2_induct)
  case Nil
  then show ?case by simp
next
  case (Cons h1 hs1 req reqs)
  have "map (\<lambda>j. Invoked (i + j) (sent sb os cf ct msg ctx ((h1 # hs1) ! j) ((req # reqs) ! j))) [0..<Suc (length hs1)]
      = Invoked i (sent sb os cf ct msg ctx h1 req)
        # map (\<lambda>j. Invoked (Suc i + j) (sent sb os cf ct msg ctx (hs1 ! j) (reqs ! j))) [0..<length hs1]"
    by (simp add: map_upt_Suc del: upt_Suc)
  with Cons.hyps(1) Cons.IH [of "Suc i"] Cons.prems show ?case by simp
qed






lemma decode_Failure:
  assumes "reqType h = Some rt"
    and "ReadHeader cf (Body msg) = Inl err \<or> (\<exists>buf. ReadHeader cf (Body msg) = Inr buf \<and> ReadBody cf buf rt = Inl err)"
  shows "decode cf msg h = Inl (Failure err)"
  using assms by (auto simp: decode_def)



lemma handlers_ex_orders_sub: "handlers ex_orders_sub = [ex_hAudit, ex_hCreated]"
  by (simp add: ex_orders_sub_def newSubscriber_def nil_pointer_def ex_orders_def tOrdersSvc_def NumMethod_def
      method_handler_def ex_hAudit_def ex_hCreated_def upt_rec)

lemma topic_ex_orders_sub: "topic ex_orders_sub = ''orders''" "is_Func (sub_typ ex_orders_sub) = False"
  by (simp_all add: ex_orders_sub_def newSubscriber_def nil_pointer_def ex_orders_def tOrdersSvc_def is_Func_def)

lemma content_type_ex_event: "content_type (Message (ex_event ct)) = ct"
  by (simp add: content_type_def ex_event_def)


lemma newCodec_ex_strict: "newCodec (ex_strict bad) ''application/json'' = Inr (ex_failing_codec bad)"
  by (simp add: newCodec_def ex_strict_def Init_def)


lemma decode_ex_failing_codec:
  "decode (ex_failing_codec tOrderCreatedAudit) (Message (ex_event ct)) ex_hAudit = Inl (Failure ''cannot decode body'')"
  "decode (ex_failing_codec tOrderCreatedAudit) (Message (ex_event ct)) ex_hCreated = Inr (Payload tOrderCreated [1, 2, 3])"
  "decode (ex_failing_codec tOrderCreated) (Message (ex_event ct)) ex_hAudit = Inr (Payload tOrderCreatedAudit [1, 2, 3])"
  "decode (ex_failing_codec tOrderCreated) (Message (ex_event ct)) ex_hCreated = Inl (Failure ''cannot decode body'')"
  using types_differ
  by (simp_all add: decode_def ex_failing_codec_def ex_event_def ex_hAudit_def ex_hCreated_def)

lemma sent_ex:
  "sent ex_orders_sub ex_options cf ct msg ctx ex_hAudit req = Some ''audit store unreachable''"
  "sent ex_orders_sub ex_options cf ct msg ctx ex_hCreated req = None"
  by (simp_all add: sent_def wrap_def ex_options_def fn_def ex_hAudit_def ex_hCreated_def returns_def)





text \<open>
  C6, as stated, fails: a decode failure is not confined to its handler. With two handlers,
  when \<^verbatim>\<open>ReadBody\<close> fails for the first one only, the closure returns the decode error at once
  and the second handler, whose payload would decode, is never invoked.
\<close>

theorem decode_error_skips_later_handlers:
  "handlers ex_orders_sub = [ex_hAudit, ex_hCreated]
   \<and> decode (ex_failing_codec tOrderCreatedAudit) (Message (ex_event ''application/json'')) ex_hAudit
       = Inl (Failure ''cannot decode body'')
   \<and> decode (ex_failing_codec tOrderCreatedAudit) (Message (ex_event ''application/json'')) ex_hCreated
       = Inr (Payload tOrderCreated [1, 2, 3])
   \<and> createSubHandler (ex_strict tOrderCreatedAudit) ex_orders_sub ex_options [0, 1] (ex_event ''application/json'')
       = (Failure ''cannot decode body'', [])"
  by (simp add: handlers_ex_orders_sub decode_ex_failing_codec createSubHandler_def content_type_ex_event
      newCodec_ex_strict Let_def)

text \<open>
  C6, amended: when the codec is found and \<^verbatim>\<open>ReadHeader\<close> or \<^verbatim>\<open>ReadBody\<close> fails for a
  handler while decoding succeeded for all handlers before it, the whole dispatch is aborted:
  it returns that decode error itself, the handlers before the failing one have been started
  (their results are not collected), and the failing handler and every handler after it
  are not invoked.
\<close>

theorem decode_error_aborts_dispatch:
  assumes "newCodec s (content_type (Message p)) = Inr cf"
    and "handlers sb = hs1 @ h # hs2"
    and "list_all2 (\<lambda>h req. decode cf (Message p) h = Inr req) hs1 reqs"
    and "reqType h = Some rt"
    and "ReadHeader cf (Body (Message p)) = Inl err
         \<or> (\<exists>buf. ReadHeader cf (Body (Message p)) = Inr buf \<and> ReadBody cf buf rt = Inl err)"
  shows "createSubHandler s sb os sched p
     = (Failure err,
        map (\<lambda>j. Invoked j (sent sb os cf (content_type (Message p)) (Message p) (handler_context (Message p))
                               (hs1 ! j) (reqs ! j)))
          [0..<length hs1])"
proof -
  from assms(4,5) have "decode cf (Message p) h = Inl (Failure err)"
    by (rule decode_Failure)
  from launch_abort [OF assms(3) this, of sb os "content_type (Message p)" "handler_context (Message p)" 0 hs2]
  show ?thesis
    by (simp add: createSubHandler_def Let_def assms(1,2))
qed

theorem decode_error_aborts_dispatch_witness:
  "newCodec (ex_strict tOrderCreated) (content_type (Message (ex_event ''application/json'')))
     = Inr (ex_failing_codec tOrderCreated)
   \<and> handlers ex_orders_sub = [ex_hAudit] @ ex_hCreated # []
   \<and> list_all2 (\<lambda>h req. decode (ex_failing_codec tOrderCreated) (Message (ex_event ''application/json'')) h = Inr req)
        [ex_hAudit] [Payload tOrderCreatedAudit [1, 2, 3]]
   \<and> reqType ex_hCreated = Some tOrderCreated
   \<and> ReadHeader (ex_failing_codec tOrderCreated) (Body (Message (ex_event ''application/json''))) = Inr [1, 2, 3]
   \<and> ReadBody (ex_failing_codec tOrderCreated) [1, 2, 3] tOrderCreated = Inl ''cannot decode body''
   \<and> createSubHandler (ex_strict tOrderCreated) ex_orders_sub ex_options [0, 1] (ex_event ''application/json'')
       = (Failure ''cannot decode body'', [Invoked 0 (Some ''audit store unreachable'')])"
proof -
  let ?p = "ex_event ''application/json''"
  let ?cf = "ex_failing_codec tOrderCreated"
  have a: "newCodec (ex_strict tOrderCreated) (content_type (Message ?p)) = Inr ?cf"
    by (simp add: content_type_ex_event newCodec_ex_strict)
  have b: "handlers ex_orders_sub = [ex_hAudit] @ ex_hCreated # []"
    by (simp add: handlers_ex_orders_sub)
  have c: "list_all2 (\<lambda>h req. decode ?cf (Message ?p) h = Inr req) [ex_hAudit] [Payload tOrderCreatedAudit [1, 2, 3]]"
    by (simp add: decode_ex_failing_codec)
  have d: "reqType ex_hCreated = Some tOrderCreated"
    by (simp add: ex_hCreated_def)
  have e1: "ReadHeader ?cf (Body (Message ?p)) = Inr [1, 2, 3]"
    by (simp add: ex_failing_codec_def ex_event_def)
  have e2: "ReadBody ?cf [1, 2, 3] tOrderCreated = Inl ''cannot decode body''"
    by (simp add: ex_failing_codec_def)
  from e1 e2 have e: "ReadHeader ?cf (Body (Message ?p)) = Inl ''cannot decode body''
      \<or> (\<exists>buf. ReadHeader ?cf (Body (Message ?p)) = Inr buf \<and> ReadBody ?cf buf tOrderCreated = Inl ''cannot decode body'')"
    by blast
  from decode_error_aborts_dispatch [OF a b c d e, of ex_options "[0, 1]"]
  have "createSubHandler (ex_strict tOrderCreated) ex_orders_sub ex_options [0, 1] ?p
       = (Failure ''cannot decode body'', [Invoked 0 (Some ''audit store unreachable'')])"
    by (simp add: sent_ex)
  with a b c d e1 e2 show ?thesis by (intro conjI)
qed

subsection \<open>The accept loop: backoff\<close>

lemma int64_id: "- (2 ^ 63) \<le> x \<Longrightarrow> x < 2 ^ 63 \<Longrightarrow> int64 x = x"
  by (simp add: int64_def)

lemma next_tempDelay_zero: "next_tempDelay 0 = 5 * Millisecond"
  by (simp add: next_tempDelay_def Let_def int64_id Millisecond_def Second_def)

lemma next_tempDelay_double:
  assumes "0 < x" and "x \<le> Second"
  shows "next_tempDelay x = min (x * 2) Second"
proof -
  have "int64 (x * 2) = x * 2"
    using assms by (intro int64_id) (simp_all add: Second_def)
  moreover have "int64 (1 * Second) = Second"
    by (simp add: int64_id Second_def)
  ultimately show ?thesis
    using assms by (simp add: next_tempDelay_def Let_def min_def)
qed

lemma next_tempDelay_closed:
  "next_tempDelay (min (5 * Millisecond * 2 ^ k) Second) = min (5 * Millisecond * 2 ^ Suc k) Second"
proof -
  define a :: int where "a = 5 * Millisecond * 2 ^ k"
  have pos: "0 < a" by (simp add: a_def Millisecond_def)
  have S: "0 < Second" by (simp add: Second_def)
  have "next_tempDelay (min a Second) = min (a * 2) Second"
  proof (cases "a \<le> Second")
    case True
    then show ?thesis using pos by (simp add: next_tempDelay_double)
  next
    case False
    then have "next_tempDelay (min a Second) = min (Second * 2) Second"
      using S by (simp add: next_tempDelay_double)
    then show ?thesis using False S by simp
  qed
  then show ?thesis by (simp add: a_def mult.assoc mult.commute)
qed

lemma funpow_next_tempDelay:
  "(next_tempDelay ^^ Suc k) 0 = min (5 * Millisecond * 2 ^ k) Second"
proof (induction k)
  case 0
  have "5 * Millisecond \<le> Second" by (simp add: Millisecond_def Second_def)
  then show ?case by (simp add: next_tempDelay_zero)
next
  case (Suc k)
  have "(next_tempDelay ^^ Suc (Suc k)) 0 = next_tempDelay ((next_tempDelay ^^ Suc k) 0)"
    by simp
  also have "\<dots> = min (5 * Millisecond * 2 ^ Suc k) Second"
    unfolding Suc.IH by (rule next_tempDelay_closed)
  finally show ?case .
qed

lemma sleeps_serve_funpow:
  "sleeps (serve d rs) = map (\<lambda>k. (next_tempDelay ^^ Suc k) d) [0..<length (sleeps (serve d rs))]"
proof (induction rs arbitrary: d)
  case Nil
  show ?case by simp
next
  case (Cons r rs)
  show ?case
  proof (cases r)
    case (Conn c)
    with Cons.IH [of d] show ?thesis by simp
  next
    case (AcceptError temporary exit)
    show ?thesis
    proof (cases "\<not> exit \<and> temporary")
      case False
      with AcceptError show ?thesis by auto
    next
      case True
      define n where "n = length (sleeps (serve (next_tempDelay d) rs))"
      have ih: "sleeps (serve (next_tempDelay d) rs) = map (\<lambda>k. (next_tempDelay ^^ Suc k) (next_tempDelay d)) [0..<n]"
        unfolding n_def by (rule Cons.IH)
      have step: "sleeps (serve d (r # rs)) = next_tempDelay d # sleeps (serve (next_tempDelay d) rs)"
        using True AcceptError by (simp add: Let_def)
      have "map (\<lambda>k. (next_tempDelay ^^ Suc k) d) [0..<Suc n]
          = (next_tempDelay ^^ Suc 0) d # map (\<lambda>k. (next_tempDelay ^^ Suc (Suc k)) d) [0..<n]"
        by (rule map_upt_Suc)
      also have "\<dots> = next_tempDelay d # map (\<lambda>k. (next_tempDelay ^^ Suc k) (next_tempDelay d)) [0..<n]"
        by (simp only: funpow_Suc_right o_apply funpow_0)
      finally have "map (\<lambda>k. (next_tempDelay ^^ Suc k) d) [0..<Suc n] = sleeps (serve d (r # rs))"
        using ih step by simp
      moreover have "length (sleeps (serve d (r # rs))) = Suc n"
        using step n_def by simp
      ultimately show ?thesis by simp
    qed
  qed
qed

lemma length_sleeps_serve: "length (sleeps (serve d rs)) = transient_failures rs"
proof (induction rs arbitrary: d)
  case Nil
  show ?case by simp
next
  case (Cons r rs)
  show ?case
  proof (cases r)
    case (Conn c)
    with Cons.IH [of d] show ?thesis by simp
  next
    case (AcceptError temporary exit)
    with Cons.IH [of "next_tempDelay d"] show ?thesis by (simp add: Let_def)
  qed
qed

text \<open>
  What the loop does on every sequence of results of \<^verbatim>\<open>Accept\<close>: it sleeps once for each
  transient failure, and the \<open>k\<close>-th of them (counted from 0 over the whole run, whatever was
  accepted in between) sleeps \<open>min (5ms * 2 ^ k) 1s\<close>. The variable \<^verbatim>\<open>tempDelay\<close> is assigned
  in the failure branch only.
\<close>

lemma sleeps_serve_backoff:
  "sleeps (serve 0 rs) = map (\<lambda>k. min (5 * Millisecond * 2 ^ k) Second) [0..<transient_failures rs]"
proof -
  have "sleeps (serve 0 rs) = map (\<lambda>k. (next_tempDelay ^^ Suc k) 0) [0..<length (sleeps (serve 0 rs))]"
    by (rule sleeps_serve_funpow)
  then show ?thesis
    by (simp only: funpow_next_tempDelay length_sleeps_serve)
qed

text \<open>
  C4 claims that the backoff starts at 5ms, doubles on each consecutive transient failure up
  to one second, and restarts at 5ms after a successful accept. The code, run on a transient
  failure, an accepted connection and a second transient failure: it sleeps 5ms, serves the
  connection and sleeps 10ms; after two failures and two accepted connections the third
  failure sleeps 20ms. The first run of failures is as claimed; no accept resets the delay.
\<close>

theorem serve_backoff_not_reset_by_accept:
  "serve 0 [AcceptError True False, Conn 7, AcceptError True False]
     = [Sleep (5 * Millisecond), Serve 7, Sleep (10 * Millisecond)]
   \<and> 10 * Millisecond \<noteq> 5 * Millisecond
   \<and> serve 0 [AcceptError True False, AcceptError True False, Conn 7, Conn 8, AcceptError True False]
     = [Sleep (5 * Millisecond), Sleep (10 * Millisecond), Serve 7, Serve 8, Sleep (20 * Millisecond)]
   \<and> 20 * Millisecond \<noteq> 5 * Millisecond"
  by (simp add: next_tempDelay_def int64_def Millisecond_def Second_def Let_def)

end
